theory Spec2Isabelle
  imports Complex_Main "HOL-Library.Product_Lexorder" "HOL-Library.Sublist"
begin

section \<open>Numbers of the analysis tools\<close>

text \<open>
  The three tools of \<^verbatim>\<open>src/tools.py\<close> compute with NumPy double
  precision scalars.  A finite scalar is modelled by the real number it stands for
  (rounding is not modelled); the three special values of the format are kept,
  because the tools reach them: a reduction of an empty column and the score of
  a one-point regression are NaN, and a NumPy division by zero does not raise
  but yields NaN or an infinity.
\<close>

datatype npfloat = Fin real | PInf | NInf | NaN

text \<open>Comparison: every comparison with NaN is false.\<close>

fun np_lt :: "npfloat \<Rightarrow> npfloat \<Rightarrow> bool" where
  "np_lt NaN _ = False"
| "np_lt _ NaN = False"
| "np_lt (Fin a) (Fin b) = (a < b)"
| "np_lt (Fin a) PInf = True"
| "np_lt (Fin a) NInf = False"
| "np_lt PInf _ = False"
| "np_lt NInf NInf = False"
| "np_lt NInf _ = True"

definition np_gt :: "npfloat \<Rightarrow> npfloat \<Rightarrow> bool" where
  "np_gt a b = np_lt b a"

fun np_neg :: "npfloat \<Rightarrow> npfloat" where
  "np_neg (Fin a) = Fin (- a)"
| "np_neg PInf = NInf"
| "np_neg NInf = PInf"
| "np_neg NaN = NaN"

fun np_abs :: "npfloat \<Rightarrow> npfloat" where
  "np_abs (Fin a) = Fin \<bar>a\<bar>"
| "np_abs PInf = PInf"
| "np_abs NInf = PInf"
| "np_abs NaN = NaN"

fun np_add :: "npfloat \<Rightarrow> npfloat \<Rightarrow> npfloat" where
  "np_add NaN _ = NaN"
| "np_add _ NaN = NaN"
| "np_add (Fin a) (Fin b) = Fin (a + b)"
| "np_add (Fin a) PInf = PInf"
| "np_add (Fin a) NInf = NInf"
| "np_add PInf NInf = NaN"
| "np_add PInf _ = PInf"
| "np_add NInf PInf = NaN"
| "np_add NInf _ = NInf"

definition np_sub :: "npfloat \<Rightarrow> npfloat \<Rightarrow> npfloat" where
  "np_sub a b = np_add a (np_neg b)"

text \<open>
  Division of NumPy scalars.  A zero divisor gives NaN for a zero dividend and
  an infinity of the dividend's sign otherwise (the divisor zero is taken as
  positive zero); nothing is raised.
\<close>

fun np_div :: "npfloat \<Rightarrow> npfloat \<Rightarrow> npfloat" where
  "np_div NaN _ = NaN"
| "np_div _ NaN = NaN"
| "np_div (Fin a) (Fin b) =
     (if b = 0 then (if a = 0 then NaN else if 0 < a then PInf else NInf)
      else Fin (a / b))"
| "np_div (Fin a) PInf = Fin 0"
| "np_div (Fin a) NInf = Fin 0"
| "np_div PInf (Fin b) = (if 0 \<le> b then PInf else NInf)"
| "np_div NInf (Fin b) = (if 0 \<le> b then NInf else PInf)"
| "np_div PInf _ = NaN"
| "np_div NInf _ = NaN"

text \<open>
  Python's builtin \<^verbatim>\<open>min(a, b)\<close> keeps its first argument unless the
  second is smaller.
\<close>

definition py_min :: "npfloat \<Rightarrow> npfloat \<Rightarrow> npfloat" where
  "py_min a b = (if np_lt b a then b else a)"

section \<open>The classification rules\<close>

datatype category =
  RISING_STAR | FADING_OUT | SEASONAL_HERO | EVERGREEN
  | RANDOM_ERRATIC | DECLINING_SEASONAL | STABLE

record classification_result =
  classification :: category
  confidence :: npfloat
  insight :: string

text \<open>
  Lines 204 to 232 of \<^verbatim>\<open>ProductClassificationTool._run\<close>: the chain of
  \<^verbatim>\<open>if\<close>/\<^verbatim>\<open>elif\<close> over the slope and the R-squared of the trend and
  the score and the flag of the seasonality.
\<close>

definition classify :: "npfloat \<Rightarrow> npfloat \<Rightarrow> npfloat \<Rightarrow> bool \<Rightarrow> classification_result" where
  "classify slope r_squared seasonality_score is_seasonal =
    (if np_gt slope (Fin 0.5) \<and> np_gt r_squared (Fin 0.5) then
       \<lparr>classification = RISING_STAR,
        confidence = py_min (Fin 0.95) (np_add r_squared (np_div slope (Fin 2))),
        insight = ''Strong upward trend! Consider increasing marketing investment and inventory.''\<rparr>
     else if np_lt slope (Fin (- 0.5)) \<and> np_gt r_squared (Fin 0.5) then
       \<lparr>classification = FADING_OUT,
        confidence = py_min (Fin 0.95) (np_add r_squared (np_div (np_abs slope) (Fin 2))),
        insight = ''Declining trend detected. Consider product refresh or discontinuation.''\<rparr>
     else if is_seasonal \<and> np_lt (np_abs slope) (Fin 0.3) then
       \<lparr>classification = SEASONAL_HERO,
        confidence = py_min (Fin 0.9) seasonality_score,
        insight = ''Strong seasonal patterns! Plan inventory around peak months.''\<rparr>
     else if \<not> is_seasonal \<and> np_lt (np_abs slope) (Fin 0.3) then
       \<lparr>classification = EVERGREEN,
        confidence = np_sub (Fin 0.8) seasonality_score,
        insight = ''Reliable, consistent performer. Great for steady revenue.''\<rparr>
     else if np_lt r_squared (Fin 0.3) \<and> \<not> is_seasonal then
       \<lparr>classification = RANDOM_ERRATIC,
        confidence = Fin 0.6,
        insight = ''Unpredictable patterns. Investigate external factors affecting sales.''\<rparr>
     else if is_seasonal \<and> np_lt slope (Fin (- 0.2)) then
       \<lparr>classification = DECLINING_SEASONAL,
        confidence = py_min (Fin 0.85) (np_add seasonality_score (np_div (np_abs slope) (Fin 3))),
        insight = ''Seasonal product losing steam. May need repositioning.''\<rparr>
     else
       \<lparr>classification = STABLE,
        confidence = Fin 0.5,
        insight = ''Steady performance with no major trends.''\<rparr>)"

section \<open>The sales table\<close>

text \<open>
  A row of the CSV file after the tools have chosen the product and the sales
  column and parsed the \<^verbatim>\<open>Date\<close> column: the product's name, the calendar date
  and the number sold.  Sales are finite numbers.  pandas gives the sales column
  of a file with rows one NumPy type, 64-bit floating point, signed 64-bit
  integer or unsigned 64-bit integer, and every value read from the column is a
  scalar of that type: a row carries the type of its column beside the number.
  The values of an integer column are whole numbers.
\<close>

datatype numeric_dtype = float64 | int64 | uint64

record calendar_date =
  year :: nat
  month :: nat
  day :: nat

record sales_row =
  Product :: string
  Date :: calendar_date
  Units_Sold :: real
  Sales_dtype :: numeric_dtype

text \<open>
  The type of the sales column of a table.  A file that has a header and no
  rows gives a column of the type \<^verbatim>\<open>object\<close>, which is \<open>None\<close> here.
\<close>

definition column_dtype :: "sales_row list \<Rightarrow> numeric_dtype option" where
  "column_dtype data = (case data of [] \<Rightarrow> None | r # _ \<Rightarrow> Some (Sales_dtype r))"

text \<open>
  The difference of two NumPy scalars.  Two integers of the same type are
  subtracted in that type and the result wraps around; any other pair is
  subtracted as floating-point numbers.
\<close>

definition wrap_uint64 :: "int \<Rightarrow> int" where
  "wrap_uint64 k = k mod 2 ^ 64"

definition wrap_int64 :: "int \<Rightarrow> int" where
  "wrap_int64 k = (k + 2 ^ 63) mod 2 ^ 64 - 2 ^ 63"

definition scalar_sub :: "numeric_dtype \<times> real \<Rightarrow> numeric_dtype \<times> real \<Rightarrow> real" where
  "scalar_sub a b =
     (if fst a = uint64 \<and> fst b = uint64 then of_int (wrap_uint64 (\<lfloor>snd a\<rfloor> - \<lfloor>snd b\<rfloor>))
      else if fst a = int64 \<and> fst b = int64 then of_int (wrap_int64 (\<lfloor>snd a\<rfloor> - \<lfloor>snd b\<rfloor>))
      else snd a - snd b)"

text \<open>\<^verbatim>\<open>product_data[sales_col]\<close> as a column of scalars.\<close>

definition sales_column :: "sales_row list \<Rightarrow> (numeric_dtype \<times> real) list" where
  "sales_column rows = map (\<lambda>r. (Sales_dtype r, Units_Sold r)) rows"

text \<open>
  A Python exception, as far as the handlers of the tools look at it: its
  class and the text \<^verbatim>\<open>str(e)\<close>.
\<close>

datatype py_exception = PyExc (exc_class: string) (str: string)

text \<open>
  \<^verbatim>\<open>data[data[product_col] == product_name]\<close>, and
  \<^verbatim>\<open>sort_values('Date')\<close>.  Rows of equal date keep their order in the model.
\<close>

definition select_product :: "sales_row list \<Rightarrow> string \<Rightarrow> sales_row list" where
  "select_product data product_name = filter (\<lambda>r. Product r = product_name) data"

definition sort_values :: "sales_row list \<Rightarrow> sales_row list" where
  "sort_values rows = sort_key (\<lambda>r. (year (Date r), month (Date r), day (Date r))) rows"

section \<open>Reductions of a pandas column\<close>

text \<open>
  \<^verbatim>\<open>Series.mean\<close>, \<^verbatim>\<open>max\<close> and \<^verbatim>\<open>min\<close> of an empty column are NaN;
  \<^verbatim>\<open>Series.std\<close> is the sample standard deviation (divisor \<open>n - 1\<close>) and is NaN
  for fewer than two values.
\<close>

definition mean_list :: "real list \<Rightarrow> real" where
  "mean_list xs = sum_list xs / real (length xs)"

definition series_mean :: "real list \<Rightarrow> npfloat" where
  "series_mean xs = (if xs = [] then NaN else Fin (mean_list xs))"

fun series_max :: "real list \<Rightarrow> npfloat" where
  "series_max [] = NaN"
| "series_max (x # xs) = Fin (fold max xs x)"

fun series_min :: "real list \<Rightarrow> npfloat" where
  "series_min [] = NaN"
| "series_min (x # xs) = Fin (fold min xs x)"

definition sum_sq_dev :: "real list \<Rightarrow> real" where
  "sum_sq_dev xs = (\<Sum>x\<leftarrow>xs. (x - mean_list xs)\<^sup>2)"

definition series_std :: "real list \<Rightarrow> npfloat" where
  "series_std xs =
     (if length xs < 2 then NaN
      else Fin (sqrt (sum_sq_dev xs / (real (length xs) - 1))))"

text \<open>
  \<^verbatim>\<open>product_data.groupby('Month')[sales_col].mean()\<close>: one entry for every
  calendar month that occurs, in ascending order of the month, holding the mean
  of the sales of all rows of that month (of any year).
\<close>

definition groupby_month_mean :: "sales_row list \<Rightarrow> (nat \<times> real) list" where
  "groupby_month_mean product_data =
     map (\<lambda>m. (m, mean_list (map Units_Sold (filter (\<lambda>r. month (Date r) = m) product_data))))
       (sort (remdups (map (\<lambda>r. month (Date r)) product_data)))"

text \<open>
  \<^verbatim>\<open>Series.nlargest(n)\<close> and \<^verbatim>\<open>Series.nsmallest(n)\<close> with the default
  \<^verbatim>\<open>keep='first'\<close>: a stable sort on the (negated) values, of which the first
  \<open>n\<close> entries are kept, so that entries of equal value stay in the order of the
  column.
\<close>

definition nlargest :: "nat \<Rightarrow> (nat \<times> real) list \<Rightarrow> (nat \<times> real) list" where
  "nlargest n s = take n (sort_key (\<lambda>(k, v). - v) s)"

definition nsmallest :: "nat \<Rightarrow> (nat \<times> real) list \<Rightarrow> (nat \<times> real) list" where
  "nsmallest n s = take n (sort_key (\<lambda>(k, v). v) s)"

text \<open>
  Both methods first check the type of the column and raise a \<^verbatim>\<open>TypeError\<close>
  for the type \<^verbatim>\<open>object\<close>; the mean of the groups of an \<^verbatim>\<open>object\<close> column is
  again of that type.
\<close>

definition nlargest_dtype_error :: py_exception where
  "nlargest_dtype_error = PyExc ''TypeError'' ''Cannot use method 'nlargest' with dtype object''"

section \<open>Linear regression\<close>

text \<open>
  \<^verbatim>\<open>LinearRegression().fit(X, y)\<close> of scikit-learn on one predictor: its
  input validation rejects an empty sample with a \<^verbatim>\<open>ValueError\<close>, and
  otherwise it returns the least-squares line through the centred data, the
  solution of least norm (slope zero) when the predictor does not vary.
\<close>

record linear_model =
  coef :: real
  intercept :: real

definition sum_cross_dev :: "real list \<Rightarrow> real list \<Rightarrow> real" where
  "sum_cross_dev X y = (\<Sum>(x, v)\<leftarrow>zip X y. (x - mean_list X) * (v - mean_list y))"

definition lstsq_slope :: "real list \<Rightarrow> real list \<Rightarrow> real" where
  "lstsq_slope X y = (if sum_sq_dev X = 0 then 0 else sum_cross_dev X y / sum_sq_dev X)"

definition least_squares :: "real list \<Rightarrow> real list \<Rightarrow> linear_model" where
  "least_squares X y =
     \<lparr>coef = lstsq_slope X y, intercept = mean_list y - lstsq_slope X y * mean_list X\<rparr>"

definition empty_sample_error :: py_exception where
  "empty_sample_error = PyExc ''ValueError''
     ''Found array with 0 sample(s) (shape=(0, 1)) while a minimum of 1 is required by LinearRegression.''"

definition fit :: "real list \<Rightarrow> real list \<Rightarrow> py_exception + linear_model" where
  "fit X y = (if X = [] then Inl empty_sample_error else Inr (least_squares X y))"

definition predict :: "linear_model \<Rightarrow> real list \<Rightarrow> real list" where
  "predict model X = map (\<lambda>x. coef model * x + intercept model) X"

text \<open>
  \<^verbatim>\<open>r2_score\<close>, which \<^verbatim>\<open>model.score\<close> calls: NaN (with a warning, no
  exception) for fewer than two samples; otherwise one minus the ratio of the
  residual to the total sum of squares, with the finite replacements 1 and 0
  when the total sum of squares is zero.
\<close>

definition r2_score :: "real list \<Rightarrow> real list \<Rightarrow> npfloat" where
  "r2_score y_true y_pred =
     (if length y_pred < 2 then NaN
      else
        let numerator = (\<Sum>(v, p)\<leftarrow>zip y_true y_pred. (v - p)\<^sup>2);
            denominator = sum_sq_dev y_true
        in if denominator \<noteq> 0 then Fin (1 - numerator / denominator)
           else if numerator \<noteq> 0 then Fin 0
           else Fin 1)"

definition score :: "linear_model \<Rightarrow> real list \<Rightarrow> real list \<Rightarrow> npfloat" where
  "score model X y = r2_score y (predict model X)"

text \<open>\<^verbatim>\<open>np.array(range(n))\<close>, the zero-based time index.\<close>

definition time_index :: "nat \<Rightarrow> real list" where
  "time_index n = map real [0..<n]"

text \<open>\<^verbatim>\<open>.iloc[0]\<close> and \<^verbatim>\<open>.iloc[-1]\<close>, which raise on an empty column.\<close>

definition iloc_first :: "'a list \<Rightarrow> py_exception + 'a" where
  "iloc_first xs =
     (case xs of [] \<Rightarrow> Inl (PyExc ''IndexError'' ''single positional indexer is out-of-bounds'')
      | x # _ \<Rightarrow> Inr x)"

definition iloc_last :: "'a list \<Rightarrow> py_exception + 'a" where
  "iloc_last xs =
     (if xs = [] then Inl (PyExc ''IndexError'' ''single positional indexer is out-of-bounds'')
      else Inr (last xs))"

text \<open>\<^verbatim>\<open>DataFrame.tail(n)\<close>.\<close>

definition tail :: "nat \<Rightarrow> 'a list \<Rightarrow> 'a list" where
  "tail n xs = drop (length xs - n) xs"

section \<open>The seasonality tool\<close>

record seasonality_result =
  seasonality_score :: npfloat
  seasonal_strength :: npfloat
  is_seasonal :: bool
  peak_months :: "nat list"
  low_months :: "nat list"

text \<open>
  Lines 36 to 50 of \<^verbatim>\<open>SeasonalityAnalysisTool._run\<close>, on the rows of the
  product, for a sales column of a numeric type: there nothing is raised.
\<close>

definition seasonality_metrics :: "sales_row list \<Rightarrow> seasonality_result" where
  "seasonality_metrics product_data =
     (let monthly_avg = groupby_month_mean product_data;
          strength_value =
            np_div (series_std (map snd monthly_avg)) (series_mean (map snd monthly_avg));
          max_month = series_max (map snd monthly_avg);
          min_month = series_min (map snd monthly_avg);
          score_value = np_div (np_sub max_month min_month) (series_mean (map snd monthly_avg))
      in \<lparr>seasonality_score = score_value,
          seasonal_strength = strength_value,
          is_seasonal = np_gt score_value (Fin 0.3),
          peak_months = map fst (nlargest 3 monthly_avg),
          low_months = map fst (nsmallest 3 monthly_avg)\<rparr>)"

text \<open>
  The same lines for a sales column of any type: on a column of the type
  \<^verbatim>\<open>object\<close> the reductions of lines 37 to 43 still return, and
  \<^verbatim>\<open>nlargest\<close> in line 46 raises.
\<close>

definition seasonality_checked ::
  "numeric_dtype option \<Rightarrow> sales_row list \<Rightarrow> py_exception + seasonality_result" where
  "seasonality_checked dtype product_data =
     (case dtype of
        None \<Rightarrow> Inl nlargest_dtype_error
      | Some _ \<Rightarrow> Inr (seasonality_metrics product_data))"

text \<open>
  The body of the \<^verbatim>\<open>try\<close> block.  \<open>read_csv\<close> stands for loading the file,
  choosing the columns and parsing the dates: it gives the table or the
  exception raised on the way.
\<close>

definition seasonality_try ::
  "(string \<Rightarrow> py_exception + sales_row list) \<Rightarrow> string \<Rightarrow> string
    \<Rightarrow> py_exception + seasonality_result" where
  "seasonality_try read_csv data_path product_name =
     (case read_csv data_path of
        Inl e \<Rightarrow> Inl e
      | Inr data \<Rightarrow> seasonality_checked (column_dtype data) (select_product data product_name))"

text \<open>
  The tool's entry point: the \<^verbatim>\<open>try\<close> block with its handler
  \<^verbatim>\<open>except Exception as e\<close>.  The report starts with a line break and the
  heading; \<open>fmt\<close> stands for the rest of the template.
\<close>

definition SeasonalityAnalysisTool_run ::
  "(string \<Rightarrow> py_exception + sales_row list) \<Rightarrow> (seasonality_result \<Rightarrow> string)
    \<Rightarrow> string \<Rightarrow> string \<Rightarrow> string" where
  "SeasonalityAnalysisTool_run read_csv fmt data_path product_name =
     (case seasonality_try read_csv data_path product_name of
        Inl e \<Rightarrow> ''Error in seasonality analysis: '' @ str e
      | Inr r \<Rightarrow> CHR 0x0A # ''SEASONALITY ANALYSIS FOR '' @ product_name @ '':'' @ fmt r)"

section \<open>The trend tool\<close>

datatype trend_strength = STRONG | MODERATE | WEAK

datatype trend_direction = RISING | DECLINING | STABLE_TREND

record trend_result =
  slope :: real
  r_squared :: npfloat
  recent_slope :: real
  recent_r_squared :: npfloat
  total_change_pct :: real
  strength :: trend_strength
  direction :: trend_direction

text \<open>
  Line 109: the percentage change from the first to the last value, with its
  guard on the first value.  Both values are scalars of the column's type, so
  the difference is the one of that type; the division is a floating-point one.
\<close>

definition change_pct :: "numeric_dtype \<times> real \<Rightarrow> numeric_dtype \<times> real \<Rightarrow> real" where
  "change_pct first_value last_value =
     (if snd first_value > 0
      then (scalar_sub last_value first_value / snd first_value) * 100
      else 0)"

text \<open>
  Lines 92 to 139 of \<^verbatim>\<open>TrendAnalysisTool._run\<close>, on the rows of the product.
\<close>

definition trend_metrics :: "sales_row list \<Rightarrow> py_exception + trend_result" where
  "trend_metrics selected =
     (let product_data = sort_values selected;
          X = time_index (length product_data);
          y = map Units_Sold product_data
      in case fit X y of
           Inl e \<Rightarrow> Inl e
         | Inr model \<Rightarrow>
             (case iloc_first (sales_column product_data) of
                Inl e \<Rightarrow> Inl e
              | Inr first_value \<Rightarrow>
                  (case iloc_last (sales_column product_data) of
                     Inl e \<Rightarrow> Inl e
                   | Inr last_value \<Rightarrow>
                       (case (if length product_data \<ge> 12 then
                                (let recent_data = tail 12 product_data;
                                     X_recent = time_index (length recent_data);
                                     y_recent = map Units_Sold recent_data
                                 in case fit X_recent y_recent of
                                      Inl e \<Rightarrow> Inl e
                                    | Inr recent_model \<Rightarrow>
                                        Inr (coef recent_model, score recent_model X_recent y_recent))
                              else Inr (coef model, score model X y)) of
                          Inl e \<Rightarrow> Inl e
                        | Inr (rs, rr) \<Rightarrow>
                            Inr \<lparr>slope = coef model,
                                 r_squared = score model X y,
                                 recent_slope = rs,
                                 recent_r_squared = rr,
                                 total_change_pct = change_pct first_value last_value,
                                 strength =
                                   (if np_gt (score model X y) (Fin 0.7) then STRONG
                                    else if np_gt (score model X y) (Fin 0.4) then MODERATE
                                    else WEAK),
                                 direction =
                                   (if coef model > 0.5 then RISING
                                    else if coef model < - 0.5 then DECLINING
                                    else STABLE_TREND)\<rparr>))))"

definition trend_try ::
  "(string \<Rightarrow> py_exception + sales_row list) \<Rightarrow> string \<Rightarrow> string
    \<Rightarrow> py_exception + trend_result" where
  "trend_try read_csv data_path product_name =
     (case read_csv data_path of
        Inl e \<Rightarrow> Inl e
      | Inr data \<Rightarrow> trend_metrics (select_product data product_name))"

definition TrendAnalysisTool_run ::
  "(string \<Rightarrow> py_exception + sales_row list) \<Rightarrow> (trend_result \<Rightarrow> string)
    \<Rightarrow> string \<Rightarrow> string \<Rightarrow> string" where
  "TrendAnalysisTool_run read_csv fmt data_path product_name =
     (case trend_try read_csv data_path product_name of
        Inl e \<Rightarrow> ''Error in trend analysis: '' @ str e
      | Inr r \<Rightarrow> CHR 0x0A # ''TREND ANALYSIS FOR '' @ product_name @ '':'' @ fmt r)"

section \<open>The classification tool\<close>

record classification_report =
  verdict :: classification_result
  trend_slope :: real
  trend_r_squared :: npfloat
  seasonal :: bool
  seasonality :: npfloat

text \<open>
  Lines 185 to 232 of \<^verbatim>\<open>ProductClassificationTool._run\<close>, on the rows of
  the product: the regression first, then the seasonality score, then the rules.
\<close>

definition classification_metrics :: "sales_row list \<Rightarrow> py_exception + classification_report" where
  "classification_metrics selected =
     (let product_data = sort_values selected;
          X = time_index (length product_data);
          y = map Units_Sold product_data
      in case fit X y of
           Inl e \<Rightarrow> Inl e
         | Inr model \<Rightarrow>
             (let monthly_avg = groupby_month_mean product_data;
                  max_month = series_max (map snd monthly_avg);
                  min_month = series_min (map snd monthly_avg);
                  score_value =
                    np_div (np_sub max_month min_month) (series_mean (map snd monthly_avg));
                  seasonal_flag = np_gt score_value (Fin 0.3)
              in Inr \<lparr>verdict =
                        classify (Fin (coef model)) (score model X y) score_value seasonal_flag,
                      trend_slope = coef model,
                      trend_r_squared = score model X y,
                      seasonal = seasonal_flag,
                      seasonality = score_value\<rparr>))"

definition classification_try ::
  "(string \<Rightarrow> py_exception + sales_row list) \<Rightarrow> string \<Rightarrow> string
    \<Rightarrow> py_exception + classification_report" where
  "classification_try read_csv data_path product_name =
     (case read_csv data_path of
        Inl e \<Rightarrow> Inl e
      | Inr data \<Rightarrow> classification_metrics (select_product data product_name))"

definition ProductClassificationTool_run ::
  "(string \<Rightarrow> py_exception + sales_row list) \<Rightarrow> (classification_report \<Rightarrow> string)
    \<Rightarrow> string \<Rightarrow> string \<Rightarrow> string" where
  "ProductClassificationTool_run read_csv fmt data_path product_name =
     (case classification_try read_csv data_path product_name of
        Inl e \<Rightarrow> ''Error in product classification: '' @ str e
      | Inr r \<Rightarrow> CHR 0x0A # ''PRODUCT CLASSIFICATION FOR '' @ product_name @ '':'' @ fmt r)"

section \<open>Notions used to state the properties\<close>

text \<open>A scalar that is a finite number within the given bounds.\<close>

fun np_between :: "real \<Rightarrow> real \<Rightarrow> npfloat \<Rightarrow> bool" where
  "np_between lo hi (Fin x) = (lo \<le> x \<and> x \<le> hi)"
| "np_between lo hi PInf = False"
| "np_between lo hi NInf = False"
| "np_between lo hi NaN = False"

text \<open>A row of a floating-point sales column, for the examples.\<close>

definition sale :: "string \<Rightarrow> nat \<Rightarrow> nat \<Rightarrow> nat \<Rightarrow> real \<Rightarrow> sales_row" where
  "sale p y m d u =
     \<lparr>Product = p, Date = \<lparr>year = y, month = m, day = d\<rparr>, Units_Sold = u,
      Sales_dtype = float64\<rparr>"

text \<open>
  The mean of the sales of one calendar month, the months that occur in a
  series, and the two orders of the months: by falling mean for the peaks, by
  rising mean for the lows, months of equal mean by rising number.
\<close>

definition month_avg :: "sales_row list \<Rightarrow> nat \<Rightarrow> real" where
  "month_avg series m = mean_list (map Units_Sold (filter (\<lambda>r. month (Date r) = m) series))"

definition months_present :: "sales_row list \<Rightarrow> nat set" where
  "months_present series = set (map (\<lambda>r. month (Date r)) series)"

definition peaks_before :: "sales_row list \<Rightarrow> nat \<Rightarrow> nat \<Rightarrow> bool" where
  "peaks_before series m m' \<longleftrightarrow>
     month_avg series m > month_avg series m'
     \<or> (month_avg series m = month_avg series m' \<and> m < m')"

definition lows_before :: "sales_row list \<Rightarrow> nat \<Rightarrow> nat \<Rightarrow> bool" where
  "lows_before series m m' \<longleftrightarrow>
     month_avg series m < month_avg series m'
     \<or> (month_avg series m = month_avg series m' \<and> m < m')"

text \<open>
  The monthly means taken together: their mean, their largest and smallest
  value, and their sample standard deviation (divisor one less than the number
  of months).
\<close>

definition mean_of_monthly_means :: "sales_row list \<Rightarrow> real" where
  "mean_of_monthly_means series =
     (\<Sum>m\<in>months_present series. month_avg series m) / real (card (months_present series))"

definition max_monthly_mean :: "sales_row list \<Rightarrow> real" where
  "max_monthly_mean series = Max (month_avg series ` months_present series)"

definition min_monthly_mean :: "sales_row list \<Rightarrow> real" where
  "min_monthly_mean series = Min (month_avg series ` months_present series)"

definition stddev_monthly_means :: "sales_row list \<Rightarrow> real" where
  "stddev_monthly_means series =
     sqrt ((\<Sum>m\<in>months_present series. (month_avg series m - mean_of_monthly_means series)\<^sup>2)
           / (real (card (months_present series)) - 1))"

text \<open>
  Three series for the examples, with several rows for one calendar month and
  rows of two years: monthly means 10, 10 and 30; monthly means 10 and 10; and
  one calendar month only.
\<close>

definition pooled_series :: "sales_row list" where
  "pooled_series =
     [sale ''A'' 2023 2 6 5, sale ''A'' 2024 2 5 15, sale ''A'' 2024 3 4 10,
      sale ''A'' 2023 7 3 20, sale ''A'' 2024 7 8 40]"

definition level_series :: "sales_row list" where
  "level_series = [sale ''A'' 2023 2 6 5, sale ''A'' 2024 2 5 15, sale ''A'' 2024 3 4 10]"

definition one_month_series :: "sales_row list" where
  "one_month_series = [sale ''A'' 2024 6 3 7, sale ''A'' 2025 6 9 9]"

text \<open>
  For the examples: a loader that finds the given table at every path, a loader
  that raises the given exception, and a template without further text.
\<close>

definition loaded :: "sales_row list \<Rightarrow> string \<Rightarrow> py_exception + sales_row list" where
  "loaded data data_path = Inr data"

definition failing :: "py_exception \<Rightarrow> string \<Rightarrow> py_exception + sales_row list" where
  "failing e data_path = Inl e"

definition no_details :: "'a \<Rightarrow> string" where
  "no_details r = []"

section \<open>Properties of the classification rules\<close>

text \<open>
  Claim C1.  For every slope, R-squared, seasonality score and seasonality flag,
  the classifier applies seven rules in a fixed order and the first rule whose
  condition holds decides: (1) slope above 0.5 and R-squared above 0.5 give
  RISING\_STAR with confidence \<open>min(0.95, r_squared + slope/2)\<close>; (2) slope below
  -0.5 and R-squared above 0.5 give FADING\_OUT with confidence
  \<open>min(0.95, r_squared + |slope|/2)\<close>; (3) a seasonal product with \<open>|slope| < 0.3\<close>
  is a SEASONAL\_HERO with confidence \<open>min(0.9, seasonality_score)\<close>; (4) a product
  that is not seasonal with \<open>|slope| < 0.3\<close> is EVERGREEN; (5) R-squared below 0.3
  on a product that is not seasonal gives RANDOM\_ERRATIC with confidence 0.6;
  (6) a seasonal product with slope below -0.2 is DECLINING\_SEASONAL with
  confidence \<open>min(0.85, seasonality_score + |slope|/3)\<close>; (7) everything else is
  STABLE with confidence 0.5.
\<close>

theorem classify_rule_order:
  fixes s r c :: npfloat and b :: bool
  defines "res \<equiv> classify s r c b"
  defines "c1 \<equiv> np_gt s (Fin 0.5) \<and> np_gt r (Fin 0.5)"
  defines "c2 \<equiv> np_lt s (Fin (- 0.5)) \<and> np_gt r (Fin 0.5)"
  defines "c3 \<equiv> b \<and> np_lt (np_abs s) (Fin 0.3)"
  defines "c4 \<equiv> \<not> b \<and> np_lt (np_abs s) (Fin 0.3)"
  defines "c5 \<equiv> np_lt r (Fin 0.3) \<and> \<not> b"
  defines "c6 \<equiv> b \<and> np_lt s (Fin (- 0.2))"
  shows
  "(c1 \<longrightarrow> classification res = RISING_STAR
       \<and> confidence res = py_min (Fin 0.95) (np_add r (np_div s (Fin 2))))
 \<and> (\<not> c1 \<and> c2 \<longrightarrow> classification res = FADING_OUT
       \<and> confidence res = py_min (Fin 0.95) (np_add r (np_div (np_abs s) (Fin 2))))
 \<and> (\<not> c1 \<and> \<not> c2 \<and> c3 \<longrightarrow> classification res = SEASONAL_HERO
       \<and> confidence res = py_min (Fin 0.9) c)
 \<and> (\<not> c1 \<and> \<not> c2 \<and> \<not> c3 \<and> c4 \<longrightarrow> classification res = EVERGREEN)
 \<and> (\<not> c1 \<and> \<not> c2 \<and> \<not> c3 \<and> \<not> c4 \<and> c5 \<longrightarrow> classification res = RANDOM_ERRATIC
       \<and> confidence res = Fin 0.6)
 \<and> (\<not> c1 \<and> \<not> c2 \<and> \<not> c3 \<and> \<not> c4 \<and> \<not> c5 \<and> c6 \<longrightarrow> classification res = DECLINING_SEASONAL
       \<and> confidence res = py_min (Fin 0.85) (np_add c (np_div (np_abs s) (Fin 3))))
 \<and> (\<not> c1 \<and> \<not> c2 \<and> \<not> c3 \<and> \<not> c4 \<and> \<not> c5 \<and> \<not> c6 \<longrightarrow> classification res = STABLE
       \<and> confidence res = Fin 0.5)"
  unfolding res_def c1_def c2_def c3_def c4_def c5_def c6_def classify_def
  by simp

text \<open>One input for each of the seven rules, the first being the example of the specification.\<close>

theorem classify_rule_order_witness:
  "classification (classify (Fin 4.2) (Fin 0.78) (Fin 0) False) = RISING_STAR
   \<and> confidence (classify (Fin 4.2) (Fin 0.78) (Fin 0) False) = Fin 0.95
   \<and> classification (classify (Fin (- 1)) (Fin 0.6) (Fin 0) False) = FADING_OUT
   \<and> confidence (classify (Fin (- 1)) (Fin 0.6) (Fin 0) False) = Fin 0.95
   \<and> classification (classify (Fin 0.1) (Fin 0.2) (Fin 0.5) True) = SEASONAL_HERO
   \<and> confidence (classify (Fin 0.1) (Fin 0.2) (Fin 0.5) True) = Fin 0.5
   \<and> classification (classify (Fin 0.1) (Fin 0.2) (Fin 0.1) False) = EVERGREEN
   \<and> classification (classify (Fin 0.4) (Fin 0.2) (Fin 0.1) False) = RANDOM_ERRATIC
   \<and> confidence (classify (Fin 0.4) (Fin 0.2) (Fin 0.1) False) = Fin 0.6
   \<and> classification (classify (Fin (- 0.3)) (Fin 0.2) (Fin 0.4) True) = DECLINING_SEASONAL
   \<and> confidence (classify (Fin (- 0.3)) (Fin 0.2) (Fin 0.4) True) = Fin 0.5
   \<and> classification (classify (Fin 0.4) (Fin 0.4) (Fin 0.1) False) = STABLE
   \<and> confidence (classify (Fin 0.4) (Fin 0.4) (Fin 0.1) False) = Fin 0.5"
proof -
  have 1: "classification (classify (Fin 4.2) (Fin 0.78) (Fin 0) False) = RISING_STAR
   \<and> confidence (classify (Fin 4.2) (Fin 0.78) (Fin 0) False) = Fin 0.95"
    using classify_rule_order [of "Fin 4.2" "Fin 0.78" "Fin 0" False]
    by (simp add: np_gt_def py_min_def)
  have 2: "classification (classify (Fin (- 1)) (Fin 0.6) (Fin 0) False) = FADING_OUT
   \<and> confidence (classify (Fin (- 1)) (Fin 0.6) (Fin 0) False) = Fin 0.95"
    using classify_rule_order [of "Fin (- 1)" "Fin 0.6" "Fin 0" False]
    by (simp add: np_gt_def py_min_def)
  have 3: "classification (classify (Fin 0.1) (Fin 0.2) (Fin 0.5) True) = SEASONAL_HERO
   \<and> confidence (classify (Fin 0.1) (Fin 0.2) (Fin 0.5) True) = Fin 0.5"
    using classify_rule_order [of "Fin 0.1" "Fin 0.2" "Fin 0.5" True]
    by (simp add: np_gt_def py_min_def)
  have 4: "classification (classify (Fin 0.1) (Fin 0.2) (Fin 0.1) False) = EVERGREEN"
    using classify_rule_order [of "Fin 0.1" "Fin 0.2" "Fin 0.1" False]
    by (simp add: np_gt_def py_min_def)
  have 5: "classification (classify (Fin 0.4) (Fin 0.2) (Fin 0.1) False) = RANDOM_ERRATIC
   \<and> confidence (classify (Fin 0.4) (Fin 0.2) (Fin 0.1) False) = Fin 0.6"
    using classify_rule_order [of "Fin 0.4" "Fin 0.2" "Fin 0.1" False]
    by (simp add: np_gt_def py_min_def)
  have 6: "classification (classify (Fin (- 0.3)) (Fin 0.2) (Fin 0.4) True) = DECLINING_SEASONAL
   \<and> confidence (classify (Fin (- 0.3)) (Fin 0.2) (Fin 0.4) True) = Fin 0.5"
    using classify_rule_order [of "Fin (- 0.3)" "Fin 0.2" "Fin 0.4" True]
    by (simp add: np_gt_def py_min_def)
  have 7: "classification (classify (Fin 0.4) (Fin 0.4) (Fin 0.1) False) = STABLE
   \<and> confidence (classify (Fin 0.4) (Fin 0.4) (Fin 0.1) False) = Fin 0.5"
    using classify_rule_order [of "Fin 0.4" "Fin 0.4" "Fin 0.1" False]
    by (simp add: np_gt_def py_min_def)
  from 1 2 3 4 5 6 7 show ?thesis by blast
qed

text \<open>
  Claim C2.  For every valid pair of results, that is a seasonality score that
  is a number not below 0, an R-squared that is a number between 0 and 1 and a
  seasonality flag that says whether the score exceeds 0.3 (the slope may be any
  scalar), the classifier returns one of the seven categories, its confidence
  is a number between 0 and 1, and in the EVERGREEN branch the confidence is
  \<open>max(0, 0.8 - seasonality_score)\<close>.
\<close>

theorem classify_total_confidence:
  assumes "0 \<le> c" and "0 \<le> r" and "r \<le> 1" and "b \<longleftrightarrow> c > 0.3"
  shows "classification (classify s (Fin r) (Fin c) b)
           \<in> {RISING_STAR, FADING_OUT, SEASONAL_HERO, EVERGREEN, RANDOM_ERRATIC,
               DECLINING_SEASONAL, STABLE}
       \<and> np_between 0 1 (confidence (classify s (Fin r) (Fin c) b))
       \<and> (classification (classify s (Fin r) (Fin c) b) = EVERGREEN \<longrightarrow>
            confidence (classify s (Fin r) (Fin c) b) = Fin (max 0 (0.8 - c)))"
  using assms
  by (cases s) (auto simp: classify_def py_min_def np_gt_def np_sub_def)

theorem classify_total_confidence_witness:
  "(0::real) \<le> 0.1 \<and> (0::real) \<le> 0.2 \<and> (0.2::real) \<le> 1 \<and> (False \<longleftrightarrow> (0.1::real) > 0.3)
   \<and> classification (classify (Fin 0.1) (Fin 0.2) (Fin 0.1) False) = EVERGREEN
   \<and> np_between 0 1 (confidence (classify (Fin 0.1) (Fin 0.2) (Fin 0.1) False))
   \<and> confidence (classify (Fin 0.1) (Fin 0.2) (Fin 0.1) False) = Fin 0.7"
proof -
  have h: "(0::real) \<le> 0.1" "(0::real) \<le> 0.2" "(0.2::real) \<le> 1" "False \<longleftrightarrow> (0.1::real) > 0.3"
    by simp_all
  have e: "classification (classify (Fin 0.1) (Fin 0.2) (Fin 0.1) False) = EVERGREEN"
    by (simp add: classify_def np_gt_def)
  show ?thesis
    using h e classify_total_confidence [OF h, of "Fin 0.1"] by simp
qed

section \<open>Properties of the trend tool\<close>

lemma sale_simps [simp]:
  "Product (sale p y m d u) = p" "year (Date (sale p y m d u)) = y"
  "month (Date (sale p y m d u)) = m" "day (Date (sale p y m d u)) = d"
  "Units_Sold (sale p y m d u) = u" "Sales_dtype (sale p y m d u) = float64"
  by (simp_all add: sale_def)

lemma length_sort_values [simp]: "length (sort_values xs) = length xs"
  by (simp add: sort_values_def)

lemma sort_values_Nil_iff [simp]: "sort_values xs = [] \<longleftrightarrow> xs = []"
  by (metis length_0_conv length_sort_values)

lemma time_index_Nil_iff [simp]: "time_index n = [] \<longleftrightarrow> n = 0"
  by (simp add: time_index_def)

lemma length_tail [simp]: "length (tail n xs) = min n (length xs)"
  by (simp add: tail_def)

lemma fit_time_index: "0 < n \<Longrightarrow> fit (time_index n) y = Inr (least_squares (time_index n) y)"
  by (simp add: fit_def)

lemma iloc_first_nonempty: "xs \<noteq> [] \<Longrightarrow> iloc_first xs = Inr (hd xs)"
  by (cases xs) (simp_all add: iloc_first_def)

lemma iloc_last_nonempty: "xs \<noteq> [] \<Longrightarrow> iloc_last xs = Inr (last xs)"
  by (simp add: iloc_last_def)

lemma trend_metrics_nonempty:
  assumes "selected \<noteq> []"
  shows "\<exists>t. trend_metrics selected = Inr t
     \<and> slope t = lstsq_slope (time_index (length selected)) (map Units_Sold (sort_values selected))
     \<and> r_squared t = score (least_squares (time_index (length selected)) (map Units_Sold (sort_values selected)))
                        (time_index (length selected)) (map Units_Sold (sort_values selected))
     \<and> total_change_pct t
          = change_pct (Sales_dtype (hd (sort_values selected)), Units_Sold (hd (sort_values selected)))
              (Sales_dtype (last (sort_values selected)), Units_Sold (last (sort_values selected)))
     \<and> strength t = (if np_gt (r_squared t) (Fin 0.7) then STRONG
                      else if np_gt (r_squared t) (Fin 0.4) then MODERATE else WEAK)
     \<and> direction t = (if slope t > 0.5 then RISING else if slope t < - 0.5 then DECLINING else STABLE_TREND)"
  using assms
  by (simp add: trend_metrics_def Let_def fit_time_index iloc_first_nonempty iloc_last_nonempty
       least_squares_def sales_column_def hd_map last_map)


lemma mean_time_index_12: "mean_list (time_index 12) = 11 / 2"
  by (simp add: mean_list_def time_index_def upt_rec numeral_eq_Suc)


lemma one_point:
  "\<exists>t. trend_metrics [row] = Inr t \<and> slope t = 0 \<and> r_squared t = NaN
      \<and> recent_slope t = 0 \<and> recent_r_squared t = NaN \<and> strength t = WEAK \<and> direction t = STABLE_TREND"
  by (simp add: trend_metrics_def sort_values_def time_index_def fit_def least_squares_def lstsq_slope_def
     sum_sq_dev_def mean_list_def iloc_first_def iloc_last_def sales_column_def score_def r2_score_def
     predict_def np_gt_def)


text \<open>
  On a floating-point sales column the total change in percent is
  \<open>(last_value - first_value) / first_value * 100\<close> when the first value is
  positive, and 0 when the first value is 0; the series \<open>[0, 5, 10]\<close> gives 0 and
  the series \<open>[10, 20, 30, 40, 50]\<close> gives 400.  The same holds on a column of
  signed integers that are not negative.
\<close>

lemma total_change_pct_float64:
  assumes "selected \<noteq> []"
    and "Sales_dtype (hd (sort_values selected)) = float64"
  shows "\<exists>t. trend_metrics selected = Inr t
     \<and> (0 < Units_Sold (hd (sort_values selected)) \<longrightarrow>
          total_change_pct t =
            (Units_Sold (last (sort_values selected)) - Units_Sold (hd (sort_values selected)))
              / Units_Sold (hd (sort_values selected)) * 100)
     \<and> (Units_Sold (hd (sort_values selected)) = 0 \<longrightarrow> total_change_pct t = 0)"
  using trend_metrics_nonempty [OF assms(1)] assms(2)
  by (auto simp: change_pct_def scalar_sub_def)

lemma total_change_pct_examples:
  "(\<exists>t. trend_metrics [sale ''A'' 2024 1 1 0, sale ''A'' 2024 1 8 5, sale ''A'' 2024 1 15 10] = Inr t
        \<and> total_change_pct t = 0)
   \<and> (\<exists>t. trend_metrics [sale ''A'' 2024 1 1 10, sale ''A'' 2024 1 8 20, sale ''A'' 2024 1 15 30,
                          sale ''A'' 2024 1 22 40, sale ''A'' 2024 1 29 50] = Inr t
        \<and> total_change_pct t = 400)"
proof -
  have a: "\<exists>t. trend_metrics [sale ''A'' 2024 1 1 0, sale ''A'' 2024 1 8 5, sale ''A'' 2024 1 15 10] = Inr t
        \<and> total_change_pct t = 0"
    using total_change_pct_float64 [of "[sale ''A'' 2024 1 1 0, sale ''A'' 2024 1 8 5, sale ''A'' 2024 1 15 10]"]
    by (simp add: sort_values_def)
  have b: "\<exists>t. trend_metrics [sale ''A'' 2024 1 1 10, sale ''A'' 2024 1 8 20, sale ''A'' 2024 1 15 30,
                          sale ''A'' 2024 1 22 40, sale ''A'' 2024 1 29 50] = Inr t
        \<and> total_change_pct t = 400"
    using total_change_pct_float64 [of "[sale ''A'' 2024 1 1 10, sale ''A'' 2024 1 8 20, sale ''A'' 2024 1 15 30,
                          sale ''A'' 2024 1 22 40, sale ''A'' 2024 1 29 50]"]
    by (simp add: sort_values_def)
  from a b show ?thesis by blast
qed

lemma wrap_int64_id: "- (2 ^ 63) \<le> k \<Longrightarrow> k < 2 ^ 63 \<Longrightarrow> wrap_int64 k = k"
  by (simp add: wrap_int64_def)

lemma total_change_pct_int64:
  assumes "selected \<noteq> []"
    and "Sales_dtype (hd (sort_values selected)) = int64"
    and "Units_Sold (hd (sort_values selected)) = of_int a" and "0 < a" and "a < 2 ^ 63"
    and "Units_Sold (last (sort_values selected)) = of_int b" and "0 \<le> b" and "b < 2 ^ 63"
  shows "\<exists>t. trend_metrics selected = Inr t
     \<and> total_change_pct t = (of_int b - of_int a) / of_int a * 100"
proof -
  have "wrap_int64 (b - a) = b - a"
    using assms(4,5,7,8) by (intro wrap_int64_id) simp_all
  then show ?thesis
    using trend_metrics_nonempty [OF assms(1)] assms(2,3,4,6)
    by (auto simp: change_pct_def scalar_sub_def)
qed

text \<open>
  Claim C7.  For every non-empty series, taken in the order of its dates, the
  total change in percent is \<open>(last_value - first_value) / first_value * 100\<close>
  when the first value is positive, and 0 when the first value is 0.  The tool
  computes this with the formula of the claim, but takes the difference in the
  type of the column: on a column of unsigned 64-bit integers the series
  18446744073709551615, 1 gives the difference 2 in place of
  -18446744073709551614, and the tool reports \<open>200 / 18446744073709551615\<close>, a
  rise, where the formula gives a fall of nearly 100 percent.
\<close>

theorem total_change_pct_uint64_wraps:
  "trend_metrics
     [(sale ''A'' 2024 1 1 18446744073709551615)\<lparr>Sales_dtype := uint64\<rparr>,
      (sale ''A'' 2024 1 8 1)\<lparr>Sales_dtype := uint64\<rparr>]
     = Inr \<lparr>slope = - 18446744073709551614, r_squared = Fin 1,
            recent_slope = - 18446744073709551614, recent_r_squared = Fin 1,
            total_change_pct = 200 / 18446744073709551615,
            strength = STRONG, direction = DECLINING\<rparr>
   \<and> (1 - 18446744073709551615) / 18446744073709551615 * 100 < (- 99 :: real)"
  by (simp add: trend_metrics_def sort_values_def sale_def time_index_def fit_def least_squares_def
        lstsq_slope_def sum_sq_dev_def sum_cross_dev_def mean_list_def iloc_first_def iloc_last_def
        sales_column_def score_def r2_score_def predict_def np_gt_def change_pct_def scalar_sub_def
        wrap_uint64_def power2_eq_square)

text \<open>
  Claim C6, as the specification has it: for a series of exactly one row the
  trend tool returns slope 0 and R-squared 0.  The tool does not: the score of a
  regression on one sample is NaN.
\<close>

theorem single_point_r_squared_counterexample:
  "trend_metrics [sale ''A'' 2024 1 1 7]
     = Inr \<lparr>slope = 0, r_squared = NaN, recent_slope = 0, recent_r_squared = NaN,
            total_change_pct = 0, strength = WEAK, direction = STABLE_TREND\<rparr>"
  by (simp add: trend_metrics_def sort_values_def time_index_def fit_def least_squares_def
        lstsq_slope_def sum_sq_dev_def mean_list_def iloc_first_def iloc_last_def sales_column_def
        score_def r2_score_def predict_def np_gt_def change_pct_def scalar_sub_def)

text \<open>
  Claim C6, amended.  For every series of exactly one row the trend tool raises
  nothing and returns slope 0 and an R-squared that is NaN (and so the recent
  slope 0, the recent R-squared NaN and the strength WEAK).
\<close>

theorem single_point_trend:
  assumes "length selected = 1"
  shows "\<exists>t. trend_metrics selected = Inr t \<and> slope t = 0 \<and> r_squared t = NaN
      \<and> recent_slope t = 0 \<and> recent_r_squared t = NaN \<and> strength t = WEAK"
proof -
  from assms obtain row where "selected = [row]"
    by (cases selected) simp_all
  then show ?thesis using one_point [of row] by auto
qed

theorem single_point_trend_witness:
  "length [sale ''A'' 2024 1 1 7] = 1
   \<and> (\<exists>t. trend_metrics [sale ''A'' 2024 1 1 7] = Inr t \<and> slope t = 0 \<and> r_squared t = NaN
      \<and> recent_slope t = 0 \<and> recent_r_squared t = NaN \<and> strength t = WEAK)"
  using single_point_trend [of "[sale ''A'' 2024 1 1 7]"] by simp



section \<open>Properties of the seasonality tool\<close>

lemma series_max_Max: "xs \<noteq> [] \<Longrightarrow> series_max xs = Fin (Max (set xs))"
proof (cases xs)
  case Nil
  assume "xs \<noteq> []"
  with Nil show ?thesis by simp
next
  case (Cons a list)
  then show ?thesis by (simp only: series_max.simps Max.set_eq_fold)
qed

lemma series_min_Min: "xs \<noteq> [] \<Longrightarrow> series_min xs = Fin (Min (set xs))"
proof (cases xs)
  case Nil
  assume "xs \<noteq> []"
  with Nil show ?thesis by simp
next
  case (Cons a list)
  then show ?thesis by (simp only: series_min.simps Min.set_eq_fold)
qed

lemma sort_Nil_iff: "sort xs = [] \<longleftrightarrow> xs = []"
  by (metis length_0_conv length_sort)

lemma groupby_month_mean_Nil_iff [simp]: "groupby_month_mean rows = [] \<longleftrightarrow> rows = []"
  by (simp add: groupby_month_mean_def sort_Nil_iff)

lemma map_fst_groupby:
  "map fst (groupby_month_mean rows) = sort (remdups (map (\<lambda>r. month (Date r)) rows))"
  by (simp add: groupby_month_mean_def comp_def)

lemma seasonality_metrics_score:
  assumes "series \<noteq> []"
  shows "seasonality_score (seasonality_metrics series)
       = np_div (Fin (Max (set (map snd (groupby_month_mean series)))
                    - Min (set (map snd (groupby_month_mean series)))))
           (Fin (mean_list (map snd (groupby_month_mean series))))"
proof -
  let ?mm = "map snd (groupby_month_mean series)"
  have ne: "?mm \<noteq> []" using assms by simp
  have "np_sub (series_max ?mm) (series_min ?mm) = Fin (Max (set ?mm) - Min (set ?mm))"
    by (simp only: series_max_Max [OF ne] series_min_Min [OF ne] np_sub_def np_neg.simps np_add.simps)
       simp
  moreover have "series_mean ?mm = Fin (mean_list ?mm)"
    using ne by (simp only: series_mean_def if_False)
  ultimately show ?thesis
    by (simp only: seasonality_metrics_def Let_def seasonality_result.simps)
qed

lemma seasonality_metrics_strength:
  assumes "series \<noteq> []"
  shows "seasonal_strength (seasonality_metrics series)
       = np_div (series_std (map snd (groupby_month_mean series)))
           (Fin (mean_list (map snd (groupby_month_mean series))))"
proof -
  let ?mm = "map snd (groupby_month_mean series)"
  have ne: "?mm \<noteq> []" using assms by simp
  have "series_mean ?mm = Fin (mean_list ?mm)"
    using ne by (simp only: series_mean_def if_False)
  then show ?thesis
    by (simp only: seasonality_metrics_def Let_def seasonality_result.simps)
qed

lemma seasonality_metrics_flag:
  "is_seasonal (seasonality_metrics series)
     = np_gt (seasonality_score (seasonality_metrics series)) (Fin 0.3)"
  by (simp only: seasonality_metrics_def Let_def seasonality_result.simps)

subsection \<open>Peak and low months\<close>

text \<open>
  A stable sort of a list whose entries come in strictly rising order of a
  second key sorts by the pair of both keys.
\<close>

lemma insort_key_tie_order:
  fixes f :: "'a \<Rightarrow> 'b::linorder" and g :: "'a \<Rightarrow> 'c::order"
  assumes "sorted_wrt (\<lambda>a b. f a < f b \<or> (f a = f b \<and> g a < g b)) ys"
    and "\<forall>y\<in>set ys. g x < g y"
  shows "sorted_wrt (\<lambda>a b. f a < f b \<or> (f a = f b \<and> g a < g b)) (insort_key f x ys)"
  using assms
proof (induction ys)
  case Nil
  then show ?case by simp
next
  case (Cons y ys)
  show ?case
  proof (cases "f x \<le> f y")
    case True
    have "\<forall>z\<in>set ys. f y \<le> f z" using Cons.prems(1) by auto
    with True Cons.prems show ?thesis by (auto simp: le_less)
  next
    case False
    with Cons show ?thesis by (auto simp: set_insort_key)
  qed
qed

lemma sort_key_tie_order:
  fixes f :: "'a \<Rightarrow> 'b::linorder" and g :: "'a \<Rightarrow> 'c::order"
  assumes "sorted_wrt (<) (map g xs)"
  shows "sorted_wrt (\<lambda>a b. f a < f b \<or> (f a = f b \<and> g a < g b)) (sort_key f xs)"
  using assms
proof (induction xs)
  case Nil
  then show ?case by simp
next
  case (Cons x xs)
  then have "\<forall>y\<in>set (sort_key f xs). g x < g y" by auto
  with Cons show ?case by (simp add: insort_key_tie_order)
qed

lemma groupby_keys_strict: "sorted_wrt (<) (map fst (groupby_month_mean series))"
  by (simp add: map_fst_groupby strict_sorted_iff)

lemma groupby_keys_set: "fst ` set (groupby_month_mean series) = months_present series"
  by (simp add: groupby_month_mean_def months_present_def image_image)

lemma groupby_value:
  "(m, v) \<in> set (groupby_month_mean series) \<Longrightarrow> v = month_avg series m"
  by (auto simp: groupby_month_mean_def month_avg_def)

lemma length_groupby: "length (groupby_month_mean series) = card (months_present series)"
  by (simp add: groupby_month_mean_def months_present_def length_remdups_card_conv)

lemma take_selection:
  assumes srt: "sorted_wrt (\<lambda>a b. P (fst a) (fst b)) ys"
    and keys: "fst ` set ys = M"
    and len: "length ys = card M"
  shows "length (map fst (take n ys)) = min n (card M)"
    and "set (map fst (take n ys)) \<subseteq> M"
    and "sorted_wrt P (map fst (take n ys))"
    and "\<forall>m\<in>set (map fst (take n ys)). \<forall>m'\<in>M - set (map fst (take n ys)). P m m'"
    and "card M \<le> n \<longrightarrow> set (map fst (take n ys)) = M"
proof -
  show "length (map fst (take n ys)) = min n (card M)"
    using len by (simp add: min.commute)
  show "set (map fst (take n ys)) \<subseteq> M"
    using keys by (auto dest: in_set_takeD)
  show "sorted_wrt P (map fst (take n ys))"
    using srt by (simp add: sorted_wrt_map)
  have split: "sorted_wrt (\<lambda>a b. P (fst a) (fst b)) (take n ys @ drop n ys)"
    using srt by simp
  show "\<forall>m\<in>set (map fst (take n ys)). \<forall>m'\<in>M - set (map fst (take n ys)). P m m'"
  proof (intro ballI)
    fix m m'
    assume m: "m \<in> set (map fst (take n ys))"
      and m': "m' \<in> M - set (map fst (take n ys))"
    from m obtain a where a: "a \<in> set (take n ys)" "m = fst a" by auto
    from m' keys obtain b where b: "b \<in> set ys" "m' = fst b" by auto
    from m' b have "b \<notin> set (take n ys)" by auto
    moreover have "set ys = set (take n ys) \<union> set (drop n ys)"
      by (metis append_take_drop_id set_append)
    ultimately have "b \<in> set (drop n ys)" using b(1) by blast
    with split a(1) have "P (fst a) (fst b)"
      unfolding sorted_wrt_append by blast
    with a b show "P m m'" by simp
  qed
  show "card M \<le> n \<longrightarrow> set (map fst (take n ys)) = M"
    using keys len by simp
qed

lemma nlargest_order:
  "sorted_wrt (\<lambda>a b. peaks_before series (fst a) (fst b))
     (sort_key (\<lambda>(k, v). - v) (groupby_month_mean series))"
proof -
  let ?f = "\<lambda>(k :: nat, v :: real). - v"
  have "sorted_wrt (\<lambda>a b. ?f a < ?f b \<or> (?f a = ?f b \<and> fst a < fst b))
          (sort_key ?f (groupby_month_mean series))"
    by (rule sort_key_tie_order [OF groupby_keys_strict])
  then show ?thesis
  proof (rule sorted_wrt_mono_rel [rotated])
    fix a b
    assume "a \<in> set (sort_key ?f (groupby_month_mean series))"
      and "b \<in> set (sort_key ?f (groupby_month_mean series))"
      and r: "?f a < ?f b \<or> (?f a = ?f b \<and> fst a < fst b)"
    then have "snd a = month_avg series (fst a)" "snd b = month_avg series (fst b)"
      by (simp_all add: groupby_value)
    with r show "peaks_before series (fst a) (fst b)"
      by (auto simp: peaks_before_def split_beta)
  qed
qed

lemma nsmallest_order:
  "sorted_wrt (\<lambda>a b. lows_before series (fst a) (fst b))
     (sort_key (\<lambda>(k, v). v) (groupby_month_mean series))"
proof -
  let ?f = "\<lambda>(k :: nat, v :: real). v"
  have "sorted_wrt (\<lambda>a b. ?f a < ?f b \<or> (?f a = ?f b \<and> fst a < fst b))
          (sort_key ?f (groupby_month_mean series))"
    by (rule sort_key_tie_order [OF groupby_keys_strict])
  then show ?thesis
  proof (rule sorted_wrt_mono_rel [rotated])
    fix a b
    assume "a \<in> set (sort_key ?f (groupby_month_mean series))"
      and "b \<in> set (sort_key ?f (groupby_month_mean series))"
      and r: "?f a < ?f b \<or> (?f a = ?f b \<and> fst a < fst b)"
    then have "snd a = month_avg series (fst a)" "snd b = month_avg series (fst b)"
      by (simp_all add: groupby_value)
    with r show "lows_before series (fst a) (fst b)"
      by (auto simp: lows_before_def split_beta)
  qed
qed

lemma peak_months_eq:
  "peak_months (seasonality_metrics series)
     = map fst (take 3 (sort_key (\<lambda>(k, v). - v) (groupby_month_mean series)))"
  by (simp only: seasonality_metrics_def Let_def seasonality_result.simps nlargest_def)

lemma low_months_eq:
  "low_months (seasonality_metrics series)
     = map fst (take 3 (sort_key (\<lambda>(k, v). v) (groupby_month_mean series)))"
  by (simp only: seasonality_metrics_def Let_def seasonality_result.simps nsmallest_def)

text \<open>
  Claim C4.  The peak months are the (up to) three months of largest monthly
  mean, listed by falling mean, and the low months the (up to) three of smallest
  monthly mean, listed by rising mean, months of equal mean in rising order of
  the month number; every month left out comes after every month listed in the
  respective order.  With fewer than three distinct months (in particular with
  one) the lists hold exactly the months that occur, and nothing fails.
\<close>

theorem peak_low_months:
  "length (peak_months (seasonality_metrics series)) = min 3 (card (months_present series))
   \<and> set (peak_months (seasonality_metrics series)) \<subseteq> months_present series
   \<and> sorted_wrt (peaks_before series) (peak_months (seasonality_metrics series))
   \<and> (\<forall>m\<in>set (peak_months (seasonality_metrics series)).
        \<forall>m'\<in>months_present series - set (peak_months (seasonality_metrics series)).
          peaks_before series m m')
   \<and> length (low_months (seasonality_metrics series)) = min 3 (card (months_present series))
   \<and> set (low_months (seasonality_metrics series)) \<subseteq> months_present series
   \<and> sorted_wrt (lows_before series) (low_months (seasonality_metrics series))
   \<and> (\<forall>m\<in>set (low_months (seasonality_metrics series)).
        \<forall>m'\<in>months_present series - set (low_months (seasonality_metrics series)).
          lows_before series m m')
   \<and> (card (months_present series) \<le> 3 \<longrightarrow>
        set (peak_months (seasonality_metrics series)) = months_present series
        \<and> set (low_months (seasonality_metrics series)) = months_present series)"
proof -
  let ?hi = "sort_key (\<lambda>(k, v). - v) (groupby_month_mean series)"
  let ?lo = "sort_key (\<lambda>(k, v). v) (groupby_month_mean series)"
  have khi: "fst ` set ?hi = months_present series" and klo: "fst ` set ?lo = months_present series"
    by (simp_all add: groupby_keys_set)
  have lhi: "length ?hi = card (months_present series)"
    and llo: "length ?lo = card (months_present series)"
    by (simp_all add: length_groupby)
  note hi = take_selection [OF nlargest_order khi lhi, of 3, folded peak_months_eq]
  note lo = take_selection [OF nsmallest_order klo llo, of 3, folded low_months_eq]
  from hi lo show ?thesis by blast
qed

theorem peak_low_months_witness:
  "peak_months (seasonality_metrics
      [sale ''A'' 2024 1 1 10, sale ''A'' 2024 2 1 30, sale ''A'' 2024 3 1 30,
       sale ''A'' 2024 4 1 5, sale ''A'' 2024 5 1 10]) = [2, 3, 1]
   \<and> low_months (seasonality_metrics
      [sale ''A'' 2024 1 1 10, sale ''A'' 2024 2 1 30, sale ''A'' 2024 3 1 30,
       sale ''A'' 2024 4 1 5, sale ''A'' 2024 5 1 10]) = [4, 1, 5]
   \<and> sorted_wrt (peaks_before
      [sale ''A'' 2024 1 1 10, sale ''A'' 2024 2 1 30, sale ''A'' 2024 3 1 30,
       sale ''A'' 2024 4 1 5, sale ''A'' 2024 5 1 10]) [2, 3, 1]
   \<and> peaks_before
      [sale ''A'' 2024 1 1 10, sale ''A'' 2024 2 1 30, sale ''A'' 2024 3 1 30,
       sale ''A'' 2024 4 1 5, sale ''A'' 2024 5 1 10] 1 5
   \<and> lows_before
      [sale ''A'' 2024 1 1 10, sale ''A'' 2024 2 1 30, sale ''A'' 2024 3 1 30,
       sale ''A'' 2024 4 1 5, sale ''A'' 2024 5 1 10] 5 2
   \<and> card (months_present [sale ''A'' 2024 6 3 7, sale ''A'' 2025 6 10 9]) = 1
   \<and> peak_months (seasonality_metrics [sale ''A'' 2024 6 3 7, sale ''A'' 2025 6 10 9]) = [6]
   \<and> low_months (seasonality_metrics [sale ''A'' 2024 6 3 7, sale ''A'' 2025 6 10 9]) = [6]"
proof -
  let ?five = "[sale ''A'' 2024 1 1 10, sale ''A'' 2024 2 1 30, sale ''A'' 2024 3 1 30,
       sale ''A'' 2024 4 1 5, sale ''A'' 2024 5 1 10]"
  let ?one = "[sale ''A'' 2024 6 3 7, sale ''A'' 2025 6 10 9]"
  have g: "groupby_month_mean ?five = [(1, 10), (2, 30), (3, 30), (4, 5), (5, 10)]"
    by (simp add: groupby_month_mean_def mean_list_def)
  have p: "peak_months (seasonality_metrics ?five) = [2, 3, 1]"
    unfolding peak_months_eq g by simp
  have l: "low_months (seasonality_metrics ?five) = [4, 1, 5]"
    unfolding low_months_eq g by simp
  have mp: "months_present ?five = {1, 2, 3, 4, 5}"
    by (simp add: months_present_def)
  note w = peak_low_months [of ?five]
  from w have s: "sorted_wrt (peaks_before ?five) [2, 3, 1]"
    unfolding p by blast
  from w have "\<forall>m\<in>set [2, 3, 1]. \<forall>m'\<in>{1, 2, 3, 4, 5} - set [2, 3, 1]. peaks_before ?five m m'"
    unfolding p mp by blast
  then have d: "peaks_before ?five 1 5" by simp
  from w have "\<forall>m\<in>set [4, 1, 5]. \<forall>m'\<in>{1, 2, 3, 4, 5} - set [4, 1, 5]. lows_before ?five m m'"
    unfolding l mp by blast
  then have e: "lows_before ?five 5 2" by simp
  have mo: "months_present ?one = {6}"
    by (simp add: months_present_def)
  then have c: "card (months_present ?one) = 1" by simp
  note v = peak_low_months [of ?one]
  from v c have len: "length (peak_months (seasonality_metrics ?one)) = 1"
    "length (low_months (seasonality_metrics ?one)) = 1" by simp_all
  from v c mo have st: "set (peak_months (seasonality_metrics ?one)) = {6}"
    "set (low_months (seasonality_metrics ?one)) = {6}" by simp_all
  from len st have o: "peak_months (seasonality_metrics ?one) = [6]"
    "low_months (seasonality_metrics ?one) = [6]"
    by (auto simp: length_Suc_conv)
  from p l s d e c o show ?thesis by blast
qed

subsection \<open>Score, strength and flag\<close>

text \<open>
  The column that \<^verbatim>\<open>groupby\<close> returns holds the means of the months that
  occur, once each.
\<close>

lemma month_keys:
  "distinct (sort (remdups (map (\<lambda>r. month (Date r)) series)))"
  "set (sort (remdups (map (\<lambda>r. month (Date r)) series))) = months_present series"
  "length (sort (remdups (map (\<lambda>r. month (Date r)) series))) = card (months_present series)"
  by (simp_all add: months_present_def length_remdups_card_conv)

lemma map_snd_groupby:
  "map snd (groupby_month_mean series)
     = map (month_avg series) (sort (remdups (map (\<lambda>r. month (Date r)) series)))"
  by (simp add: groupby_month_mean_def month_avg_def comp_def)

lemma monthly_mean_of_means:
  "mean_list (map snd (groupby_month_mean series)) = mean_of_monthly_means series"
  by (simp only: map_snd_groupby mean_list_def mean_of_monthly_means_def length_map
        sum_list_distinct_conv_sum_set [OF month_keys(1)] month_keys(2,3))

lemma monthly_set: "set (map snd (groupby_month_mean series)) = month_avg series ` months_present series"
  by (simp only: map_snd_groupby set_map month_keys(2))

lemma monthly_sum_sq_dev:
  "sum_sq_dev (map snd (groupby_month_mean series))
     = (\<Sum>m\<in>months_present series. (month_avg series m - mean_of_monthly_means series)\<^sup>2)"
proof -
  have "sum_sq_dev (map snd (groupby_month_mean series))
      = (\<Sum>x\<leftarrow>map snd (groupby_month_mean series). (x - mean_of_monthly_means series)\<^sup>2)"
    by (simp only: sum_sq_dev_def monthly_mean_of_means)
  also have "\<dots> = (\<Sum>m\<leftarrow>sort (remdups (map (\<lambda>r. month (Date r)) series)).
                      (month_avg series m - mean_of_monthly_means series)\<^sup>2)"
    by (simp only: map_snd_groupby map_map comp_def)
  also have "\<dots> = (\<Sum>m\<in>months_present series. (month_avg series m - mean_of_monthly_means series)\<^sup>2)"
    by (simp only: sum_list_distinct_conv_sum_set [OF month_keys(1)] month_keys(2))
  finally show ?thesis .
qed

lemma score_formula:
  assumes "series \<noteq> []" and "mean_of_monthly_means series \<noteq> 0"
  shows "seasonality_score (seasonality_metrics series)
           = Fin ((max_monthly_mean series - min_monthly_mean series) / mean_of_monthly_means series)"
  proof -
    have "seasonality_score (seasonality_metrics series)
        = np_div (Fin (max_monthly_mean series - min_monthly_mean series))
            (Fin (mean_of_monthly_means series))"
      by (simp only: seasonality_metrics_score [OF assms(1)] monthly_set monthly_mean_of_means
            max_monthly_mean_def min_monthly_mean_def)
    then show ?thesis using assms(2) by simp
  qed

lemma strength_ratio:
  assumes "series \<noteq> []"
  shows "seasonal_strength (seasonality_metrics series)
           = np_div (series_std (map snd (groupby_month_mean series))) (Fin (mean_of_monthly_means series))"
    by (simp only: seasonality_metrics_strength [OF assms(1)] monthly_mean_of_means)

lemma strength_two_months:
  assumes "series \<noteq> []" and "mean_of_monthly_means series \<noteq> 0"
  shows "2 \<le> card (months_present series) \<longrightarrow>
            seasonal_strength (seasonality_metrics series)
              = Fin (stddev_monthly_means series / mean_of_monthly_means series)"
    using assms(2)
    by (simp add: strength_ratio [OF assms(1)] series_std_def length_groupby monthly_sum_sq_dev stddev_monthly_means_def)

lemma strength_one_month:
  assumes "series \<noteq> []"
  shows "card (months_present series) = 1 \<longrightarrow>
            seasonal_strength (seasonality_metrics series) = NaN"
    by (simp add: strength_ratio [OF assms(1)] series_std_def length_groupby)

lemma seasonal_flag_formula:
  assumes "series \<noteq> []" and "mean_of_monthly_means series \<noteq> 0"
  shows "is_seasonal (seasonality_metrics series) \<longleftrightarrow>
            (max_monthly_mean series - min_monthly_mean series) / mean_of_monthly_means series > 0.3"
  by (simp add: seasonality_metrics_flag score_formula [OF assms] np_gt_def)

lemma equal_monthly_means:
  assumes "series \<noteq> []"
    and all: "\<forall>m \<in> months_present series. \<forall>m' \<in> months_present series.
              month_avg series m = month_avg series m'"
  shows "max_monthly_mean series = min_monthly_mean series"
proof -
  have fin: "finite (month_avg series ` months_present series)"
    by (simp add: months_present_def)
  have ne: "month_avg series ` months_present series \<noteq> {}"
    using assms(1) by (simp add: months_present_def)
  have "max_monthly_mean series \<in> month_avg series ` months_present series"
    unfolding max_monthly_mean_def using fin ne by (rule Max_in)
  then obtain m where m: "m \<in> months_present series" "max_monthly_mean series = month_avg series m"
    by blast
  have "min_monthly_mean series \<in> month_avg series ` months_present series"
    unfolding min_monthly_mean_def using fin ne by (rule Min_in)
  then obtain m' where m': "m' \<in> months_present series" "min_monthly_mean series = month_avg series m'"
    by blast
  from all m(1) m'(1) have "month_avg series m = month_avg series m'" by blast
  with m(2) m'(2) show ?thesis by simp
qed

lemma pooled_series_months:
  "months_present pooled_series = {2, 3, 7}"
  "month_avg pooled_series 2 = 10" "month_avg pooled_series 3 = 10"
  "month_avg pooled_series 7 = 30"
  by (auto simp: pooled_series_def months_present_def month_avg_def mean_list_def)

lemma level_series_months:
  "months_present level_series = {2, 3}"
  "month_avg level_series 2 = 10" "month_avg level_series 3 = 10"
  by (auto simp: level_series_def months_present_def month_avg_def mean_list_def)

lemma one_month_series_months:
  "months_present one_month_series = {6}" "month_avg one_month_series 6 = 8"
  by (auto simp: one_month_series_def months_present_def month_avg_def mean_list_def)

text \<open>
  Claim C3, as the specification has it: for every non-empty series whose
  monthly means have a mean other than zero, the seasonal strength is the
  standard deviation of the monthly means divided by their mean.  The tool does
  not return a number for a series of one calendar month: two rows of June with
  mean 8 give the strength NaN, beside the score 0.
\<close>

theorem single_month_strength_counterexample:
  "card (months_present one_month_series) = 1
   \<and> mean_of_monthly_means one_month_series = 8
   \<and> seasonality_metrics one_month_series
       = \<lparr>seasonality_score = Fin 0, seasonal_strength = NaN, is_seasonal = False,
          peak_months = [6], low_months = [6]\<rparr>"
proof -
  have g: "groupby_month_mean one_month_series = [(6, 8)]"
    by (simp add: one_month_series_def groupby_month_mean_def mean_list_def)
  have "seasonality_metrics one_month_series
       = \<lparr>seasonality_score = Fin 0, seasonal_strength = NaN, is_seasonal = False,
          peak_months = [6], low_months = [6]\<rparr>"
    unfolding seasonality_metrics_def Let_def g
    by (simp add: series_std_def series_mean_def mean_list_def np_sub_def np_gt_def
          nlargest_def nsmallest_def)
  then show ?thesis
    by (simp add: mean_of_monthly_means_def one_month_series_months)
qed

text \<open>
  Claim C3, amended.  For every non-empty series whose monthly means have a
  mean other than zero, the seasonality score is the largest monthly mean minus
  the smallest, divided by the mean of the monthly means; the series is
  seasonal exactly when the score exceeds 0.3; when all monthly means are
  equal the score is 0 and the series is not seasonal; and the seasonal
  strength is the sample standard deviation of the monthly means (divisor one
  less than the number of months) divided by their mean when at least two
  calendar months occur, and NaN when only one occurs.
\<close>

theorem seasonality_formulas:
  assumes "series \<noteq> []"
    and "mean_of_monthly_means series \<noteq> 0"
  shows "seasonality_score (seasonality_metrics series)
           = Fin ((max_monthly_mean series - min_monthly_mean series) / mean_of_monthly_means series)
       \<and> (2 \<le> card (months_present series) \<longrightarrow>
            seasonal_strength (seasonality_metrics series)
              = Fin (stddev_monthly_means series / mean_of_monthly_means series))
       \<and> (card (months_present series) = 1 \<longrightarrow>
            seasonal_strength (seasonality_metrics series) = NaN)
       \<and> (is_seasonal (seasonality_metrics series) \<longleftrightarrow>
            (max_monthly_mean series - min_monthly_mean series) / mean_of_monthly_means series > 0.3)
       \<and> ((\<forall>m \<in> months_present series. \<forall>m' \<in> months_present series.
              month_avg series m = month_avg series m') \<longrightarrow>
            seasonality_score (seasonality_metrics series) = Fin 0
            \<and> \<not> is_seasonal (seasonality_metrics series))"
proof (intro conjI)
  show "seasonality_score (seasonality_metrics series)
           = Fin ((max_monthly_mean series - min_monthly_mean series) / mean_of_monthly_means series)"
    by (rule score_formula [OF assms])
  show "2 \<le> card (months_present series) \<longrightarrow>
            seasonal_strength (seasonality_metrics series)
              = Fin (stddev_monthly_means series / mean_of_monthly_means series)"
    by (rule strength_two_months [OF assms])
  show "card (months_present series) = 1 \<longrightarrow>
            seasonal_strength (seasonality_metrics series) = NaN"
    by (rule strength_one_month [OF assms(1)])
  show "is_seasonal (seasonality_metrics series) \<longleftrightarrow>
            (max_monthly_mean series - min_monthly_mean series) / mean_of_monthly_means series > 0.3"
    by (rule seasonal_flag_formula [OF assms])
  show "(\<forall>m \<in> months_present series. \<forall>m' \<in> months_present series.
              month_avg series m = month_avg series m') \<longrightarrow>
            seasonality_score (seasonality_metrics series) = Fin 0
            \<and> \<not> is_seasonal (seasonality_metrics series)"
  proof
    assume "\<forall>m \<in> months_present series. \<forall>m' \<in> months_present series.
              month_avg series m = month_avg series m'"
    then have "max_monthly_mean series = min_monthly_mean series"
      by (rule equal_monthly_means [OF assms(1)])
    then show "seasonality_score (seasonality_metrics series) = Fin 0
            \<and> \<not> is_seasonal (seasonality_metrics series)"
      by (simp add: score_formula [OF assms] seasonal_flag_formula [OF assms])
  qed
qed

theorem seasonality_formulas_witness:
  "mean_of_monthly_means pooled_series = 50 / 3
   \<and> seasonality_score (seasonality_metrics pooled_series) = Fin (6 / 5)
   \<and> is_seasonal (seasonality_metrics pooled_series)
   \<and> seasonal_strength (seasonality_metrics pooled_series) = Fin (sqrt (400 / 3) / (50 / 3))
   \<and> seasonality_score (seasonality_metrics level_series) = Fin 0
   \<and> seasonal_strength (seasonality_metrics level_series) = Fin 0
   \<and> is_seasonal (seasonality_metrics level_series) = False
   \<and> seasonal_strength (seasonality_metrics one_month_series) = NaN"
proof -
  have pm: "mean_of_monthly_means pooled_series = 50 / 3"
    by (simp add: mean_of_monthly_means_def pooled_series_months)
  have px: "max_monthly_mean pooled_series = 30" "min_monthly_mean pooled_series = 10"
    by (simp_all add: max_monthly_mean_def min_monthly_mean_def pooled_series_months)
  have pc: "card (months_present pooled_series) = 3"
    by (simp add: pooled_series_months)
  have ps: "stddev_monthly_means pooled_series = sqrt (400 / 3)"
    by (simp add: stddev_monthly_means_def pm pooled_series_months power2_eq_square)
  have pn: "pooled_series \<noteq> []" "mean_of_monthly_means pooled_series \<noteq> 0"
    by (simp add: pooled_series_def, simp add: pm)
  note p = seasonality_formulas [OF pn]
  have a: "seasonality_score (seasonality_metrics pooled_series) = Fin (6 / 5)"
    "is_seasonal (seasonality_metrics pooled_series)"
    "seasonal_strength (seasonality_metrics pooled_series) = Fin (sqrt (400 / 3) / (50 / 3))"
    using p unfolding pm px pc ps by simp_all
  have fm: "mean_of_monthly_means level_series = 10"
    by (simp add: mean_of_monthly_means_def level_series_months)
  have fc: "card (months_present level_series) = 2"
    by (simp add: level_series_months)
  have fs: "stddev_monthly_means level_series = 0"
    by (simp add: stddev_monthly_means_def fm level_series_months)
  have fn: "level_series \<noteq> []" "mean_of_monthly_means level_series \<noteq> 0"
    by (simp add: level_series_def, simp add: fm)
  have fe: "\<forall>m \<in> months_present level_series. \<forall>m' \<in> months_present level_series.
              month_avg level_series m = month_avg level_series m'"
    by (simp add: level_series_months)
  note f = seasonality_formulas [OF fn]
  from f fe have b1: "seasonality_score (seasonality_metrics level_series) = Fin 0"
    "is_seasonal (seasonality_metrics level_series) = False" by blast+
  have b2: "seasonal_strength (seasonality_metrics level_series) = Fin 0"
    using f unfolding fc fs fm by simp
  have sm: "mean_of_monthly_means one_month_series = 8"
    by (simp add: mean_of_monthly_means_def one_month_series_months)
  have sn: "one_month_series \<noteq> []" "mean_of_monthly_means one_month_series \<noteq> 0"
    by (simp add: one_month_series_def, simp add: sm)
  have sc1: "card (months_present one_month_series) = 1"
    by (simp add: one_month_series_months)
  from seasonality_formulas [OF sn] sc1
  have c: "seasonal_strength (seasonality_metrics one_month_series) = NaN" by blast
  from pm a b1 b2 c show ?thesis by blast
qed

subsection \<open>A zero mean of the monthly means\<close>

lemma seasonality_checked_rows:
  "data \<noteq> [] \<Longrightarrow> seasonality_checked (column_dtype data) rows = Inr (seasonality_metrics rows)"
  by (cases data) (simp_all add: seasonality_checked_def column_dtype_def)

lemma seasonality_checked_no_rows:
  "seasonality_checked (column_dtype []) rows = Inl nlargest_dtype_error"
  by (simp add: seasonality_checked_def column_dtype_def)

lemma select_product_rows: "select_product data product_name \<noteq> [] \<Longrightarrow> data \<noteq> []"
  by (auto simp: select_product_def)

lemma sum_sq_dev_nonneg: "0 \<le> sum_sq_dev xs"
  by (auto simp: sum_sq_dev_def intro!: sum_list_nonneg)

lemma Min_le_Max_list: "xs \<noteq> [] \<Longrightarrow> Min (set xs) \<le> Max (set xs)"
  by (meson List.finite_set Max_ge Min_in set_empty)

lemma zero_mean_metrics:
  assumes "series \<noteq> []"
    and "mean_list (map snd (groupby_month_mean series)) = 0"
  shows "seasonality_score (seasonality_metrics series)
           = (if Max (set (map snd (groupby_month_mean series)))
                 = Min (set (map snd (groupby_month_mean series))) then NaN else PInf)"
    and "seasonal_strength (seasonality_metrics series)
           = (if length (groupby_month_mean series) < 2
                 \<or> sum_sq_dev (map snd (groupby_month_mean series)) = 0 then NaN else PInf)"
    and "is_seasonal (seasonality_metrics series)
           \<longleftrightarrow> seasonality_score (seasonality_metrics series) = PInf"
proof -
  let ?mm = "map snd (groupby_month_mean series)"
  have ne: "?mm \<noteq> []" using assms(1) by simp
  have le: "Min (set ?mm) \<le> Max (set ?mm)" using ne by (rule Min_le_Max_list)
  show sc: "seasonality_score (seasonality_metrics series)
           = (if Max (set ?mm) = Min (set ?mm) then NaN else PInf)"
    using le by (simp add: seasonality_metrics_score [OF assms(1)] assms(2))
  show "is_seasonal (seasonality_metrics series)
           \<longleftrightarrow> seasonality_score (seasonality_metrics series) = PInf"
    by (simp add: seasonality_metrics_flag sc np_gt_def)
  show "seasonal_strength (seasonality_metrics series)
           = (if length (groupby_month_mean series) < 2 \<or> sum_sq_dev ?mm = 0 then NaN else PInf)"
  proof (cases "length (groupby_month_mean series) < 2")
    case True
    then show ?thesis
      by (simp add: seasonality_metrics_strength [OF assms(1)] assms(2) series_std_def)
  next
    case False
    let ?q = "sum_sq_dev ?mm / (real (length (groupby_month_mean series)) - 1)"
    from False have pos: "0 < real (length (groupby_month_mean series)) - 1" by simp
    have q0: "?q = 0 \<longleftrightarrow> sum_sq_dev ?mm = 0" using pos by simp
    have qn: "0 \<le> ?q" using pos sum_sq_dev_nonneg [of ?mm] by simp
    have std: "series_std ?mm = Fin (sqrt ?q)"
      using False by (simp add: series_std_def)
    have "np_div (Fin (sqrt ?q)) (Fin 0) = (if sum_sq_dev ?mm = 0 then NaN else PInf)"
    proof (cases "sum_sq_dev ?mm = 0")
      case True
      then show ?thesis by simp
    next
      case nz: False
      with q0 qn have "0 < ?q" by linarith
      then have "0 < sqrt ?q" by (simp only: real_sqrt_gt_0_iff)
      then have sq: "0 < sqrt ?q" "sqrt ?q \<noteq> 0" by linarith+
      show ?thesis
        by (simp only: np_div.simps sq nz if_True if_False simp_thms)
    qed
    with False show ?thesis
      by (simp only: seasonality_metrics_strength [OF assms(1)] assms(2) std if_False simp_thms)
  qed
qed

text \<open>
  Claim C5, as the specification has it: for a series whose monthly means have
  mean zero the seasonality tool signals a typed division-by-zero condition and
  never returns NaN silently.  The tool does not: two months without sales give
  an ordinary result whose score and strength are NaN.
\<close>

theorem zero_mean_counterexample:
  "mean_list (map snd (groupby_month_mean [sale ''A'' 2024 1 1 0, sale ''A'' 2024 2 1 0])) = 0
   \<and> seasonality_try (loaded [sale ''A'' 2024 1 1 0, sale ''A'' 2024 2 1 0]) ''sales.csv'' ''A''
       = Inr \<lparr>seasonality_score = NaN, seasonal_strength = NaN, is_seasonal = False,
              peak_months = [1, 2], low_months = [1, 2]\<rparr>"
proof -
  have g: "groupby_month_mean [sale ''A'' 2024 1 1 0, sale ''A'' 2024 2 1 0] = [(1, 0), (2, 0)]"
    by (simp add: groupby_month_mean_def mean_list_def)
  have m: "mean_list (map snd (groupby_month_mean [sale ''A'' 2024 1 1 0, sale ''A'' 2024 2 1 0])) = 0"
    unfolding g by (simp add: mean_list_def)
  have "seasonality_metrics [sale ''A'' 2024 1 1 0, sale ''A'' 2024 2 1 0]
       = \<lparr>seasonality_score = NaN, seasonal_strength = NaN, is_seasonal = False,
              peak_months = [1, 2], low_months = [1, 2]\<rparr>"
    unfolding seasonality_metrics_def Let_def g
    by (simp add: series_std_def series_mean_def sum_sq_dev_def mean_list_def np_sub_def np_gt_def
          nlargest_def nsmallest_def)
  then show ?thesis
    using m
    by (simp add: seasonality_try_def select_product_def loaded_def seasonality_checked_rows)
qed

text \<open>
  Claim C5, amended.  For every non-empty series whose monthly means have mean
  zero, the seasonality tool raises nothing and returns its ordinary report:
  the score is NaN when all monthly means are equal and plus infinity otherwise,
  the strength is NaN when there is one month or the monthly means do not vary
  and plus infinity otherwise, and the series counts as seasonal exactly when
  the score is plus infinity.
\<close>

theorem zero_mean_silent:
  assumes "read_csv data_path = Inr data"
    and "select_product data product_name \<noteq> []"
    and "mean_list (map snd (groupby_month_mean (select_product data product_name))) = 0"
  shows "\<exists>r. seasonality_try read_csv data_path product_name = Inr r
     \<and> seasonality_score r
         = (if Max (set (map snd (groupby_month_mean (select_product data product_name))))
               = Min (set (map snd (groupby_month_mean (select_product data product_name))))
            then NaN else PInf)
     \<and> seasonal_strength r
         = (if length (groupby_month_mean (select_product data product_name)) < 2
               \<or> sum_sq_dev (map snd (groupby_month_mean (select_product data product_name))) = 0
            then NaN else PInf)
     \<and> (is_seasonal r \<longleftrightarrow> seasonality_score r = PInf)
     \<and> SeasonalityAnalysisTool_run read_csv fmt data_path product_name
         = CHR 0x0A # ''SEASONALITY ANALYSIS FOR '' @ product_name @ '':'' @ fmt r"
proof -
  have t: "seasonality_try read_csv data_path product_name
         = Inr (seasonality_metrics (select_product data product_name))"
    by (simp add: seasonality_try_def assms(1)
          seasonality_checked_rows [OF select_product_rows [OF assms(2)]])
  have r: "SeasonalityAnalysisTool_run read_csv fmt data_path product_name
         = CHR 0x0A # ''SEASONALITY ANALYSIS FOR '' @ product_name @ '':''
             @ fmt (seasonality_metrics (select_product data product_name))"
    by (simp add: SeasonalityAnalysisTool_run_def t)
  from t r zero_mean_metrics [OF assms(2) assms(3)] show ?thesis by blast
qed

theorem zero_mean_silent_witness:
  "\<exists>r. seasonality_try (loaded [sale ''A'' 2024 1 1 0, sale ''A'' 2024 2 1 0]) ''sales.csv'' ''A'' = Inr r
     \<and> seasonality_score r = NaN \<and> seasonal_strength r = NaN \<and> is_seasonal r = False
     \<and> SeasonalityAnalysisTool_run (loaded [sale ''A'' 2024 1 1 0, sale ''A'' 2024 2 1 0])
          no_details ''sales.csv'' ''A''
         = CHR 0x0A # ''SEASONALITY ANALYSIS FOR A:''"
proof -
  let ?rows = "[sale ''A'' 2024 1 1 0, sale ''A'' 2024 2 1 0]"
  have sel: "select_product ?rows ''A'' = ?rows"
    by (simp add: select_product_def)
  have g: "groupby_month_mean ?rows = [(1, 0), (2, 0)]"
    by (simp add: groupby_month_mean_def mean_list_def)
  have m: "mean_list (map snd (groupby_month_mean (select_product ?rows ''A''))) = 0"
    unfolding sel g by (simp add: mean_list_def)
  have ne: "select_product ?rows ''A'' \<noteq> []" unfolding sel by simp
  have ld: "(loaded ?rows) ''sales.csv'' = Inr ?rows" by (simp add: loaded_def)
  from zero_mean_silent [of "loaded ?rows" "''sales.csv''" ?rows "''A''" no_details, OF ld ne m]
  obtain r where r: "seasonality_try (loaded ?rows) ''sales.csv'' ''A'' = Inr r"
    "seasonality_score r
         = (if Max (set (map snd (groupby_month_mean (select_product ?rows ''A''))))
               = Min (set (map snd (groupby_month_mean (select_product ?rows ''A''))))
            then NaN else PInf)"
    "seasonal_strength r
         = (if length (groupby_month_mean (select_product ?rows ''A'')) < 2
               \<or> sum_sq_dev (map snd (groupby_month_mean (select_product ?rows ''A''))) = 0
            then NaN else PInf)"
    "is_seasonal r \<longleftrightarrow> seasonality_score r = PInf"
    "SeasonalityAnalysisTool_run (loaded ?rows) no_details ''sales.csv'' ''A''
         = CHR 0x0A # ''SEASONALITY ANALYSIS FOR '' @ ''A'' @ '':'' @ no_details r"
    by blast
  have "seasonality_score r = NaN" using r(2) unfolding sel g by simp
  moreover have "seasonal_strength r = NaN"
    using r(3) unfolding sel g by (simp add: sum_sq_dev_def mean_list_def)
  moreover have "is_seasonal r = False" using r(4) calculation(1) by simp
  moreover have "SeasonalityAnalysisTool_run (loaded ?rows) no_details ''sales.csv'' ''A''
         = CHR 0x0A # ''SEASONALITY ANALYSIS FOR A:''"
    using r(5) by (simp add: no_details_def)
  ultimately show ?thesis using r(1) by blast
qed

section \<open>Properties of the entry points\<close>

lemma fit_Nil: "fit [] y = Inl empty_sample_error"
  by (simp add: fit_def)

lemma seasonality_metrics_Nil:
  "seasonality_metrics [] = \<lparr>seasonality_score = NaN, seasonal_strength = NaN, is_seasonal = False,
      peak_months = [], low_months = []\<rparr>"
  by (simp add: seasonality_metrics_def groupby_month_mean_def series_std_def series_mean_def
        np_sub_def np_gt_def nlargest_def nsmallest_def)

lemma trend_metrics_Nil: "trend_metrics [] = Inl empty_sample_error"
  by (simp add: trend_metrics_def sort_values_def time_index_def fit_Nil)

lemma classification_metrics_Nil: "classification_metrics [] = Inl empty_sample_error"
  by (simp add: classification_metrics_def sort_values_def time_index_def fit_Nil)

text \<open>
  Claim C9, as the specification has it: when no row of the table matches the
  product, the analysis fails with an error of the kind \<open>ProductNotFound\<close> and
  neither with a generic failure nor with an ordinary result.  The tools do
  not: the classification tool returns the text of the regression's
  \<^verbatim>\<open>ValueError\<close>, and the seasonality tool returns an ordinary result.
\<close>

theorem product_not_found_counterexample:
  "select_product [sale ''A'' 2024 1 1 10, sale ''A'' 2024 1 8 20] ''B'' = []
   \<and> classification_try (loaded [sale ''A'' 2024 1 1 10, sale ''A'' 2024 1 8 20]) ''sales.csv'' ''B''
       = Inl (PyExc ''ValueError''
           ''Found array with 0 sample(s) (shape=(0, 1)) while a minimum of 1 is required by LinearRegression.'')
   \<and> ProductClassificationTool_run (loaded [sale ''A'' 2024 1 1 10, sale ''A'' 2024 1 8 20])
         no_details ''sales.csv'' ''B''
       = ''Error in product classification: Found array with 0 sample(s) (shape=(0, 1)) while a minimum of 1 is required by LinearRegression.''
   \<and> seasonality_try (loaded [sale ''A'' 2024 1 1 10, sale ''A'' 2024 1 8 20]) ''sales.csv'' ''B''
       = Inr \<lparr>seasonality_score = NaN, seasonal_strength = NaN, is_seasonal = False,
              peak_months = [], low_months = []\<rparr>"
  by (simp add: select_product_def classification_try_def ProductClassificationTool_run_def
        seasonality_try_def loaded_def classification_metrics_Nil seasonality_metrics_Nil
        seasonality_checked_rows empty_sample_error_def)

text \<open>
  The seasonality tool on a product of which the table has no row: with a table
  that has rows of other products it returns an ordinary result with NaN as
  score and strength, not seasonal, and no peak or low months; with a table
  without any row the sales column is of the type \<^verbatim>\<open>object\<close> and the tool
  returns the text of the \<^verbatim>\<open>TypeError\<close> of \<^verbatim>\<open>nlargest\<close>.
\<close>

lemma seasonality_no_match:
  assumes "read_csv data_path = Inr data"
    and "select_product data product_name = []"
  shows "data \<noteq> [] \<longrightarrow>
           seasonality_try read_csv data_path product_name
             = Inr \<lparr>seasonality_score = NaN, seasonal_strength = NaN, is_seasonal = False,
                    peak_months = [], low_months = []\<rparr>"
    and "data = [] \<longrightarrow>
           seasonality_try read_csv data_path product_name = Inl nlargest_dtype_error
           \<and> SeasonalityAnalysisTool_run read_csv fmt data_path product_name
               = ''Error in seasonality analysis: '' @ str nlargest_dtype_error"
  using assms
  by (auto simp: seasonality_try_def SeasonalityAnalysisTool_run_def seasonality_checked_rows
        seasonality_checked_no_rows seasonality_metrics_Nil)

text \<open>
  Claim C9, amended.  For every table and product of which the table has no
  row, the classification tool returns no classification and no error of a
  kind of its own: its regression rejects the empty sample with a
  \<^verbatim>\<open>ValueError\<close>, and the tool returns the text
  \<open>Error in product classification: \<close> followed by the message of that
  exception.  The trend tool does the same with its own prefix.
\<close>

theorem product_not_found:
  assumes "read_csv data_path = Inr data"
    and "select_product data product_name = []"
  shows "classification_try read_csv data_path product_name = Inl empty_sample_error
     \<and> exc_class empty_sample_error = ''ValueError''
     \<and> ProductClassificationTool_run read_csv fmt_c data_path product_name
         = ''Error in product classification: '' @ str empty_sample_error
     \<and> trend_try read_csv data_path product_name = Inl empty_sample_error
     \<and> TrendAnalysisTool_run read_csv fmt_t data_path product_name
         = ''Error in trend analysis: '' @ str empty_sample_error"
  using assms
  by (simp add: classification_try_def ProductClassificationTool_run_def trend_try_def
        TrendAnalysisTool_run_def classification_metrics_Nil trend_metrics_Nil)
     (simp add: empty_sample_error_def)

theorem product_not_found_witness:
  "loaded [sale ''A'' 2024 1 1 10] ''sales.csv'' = Inr [sale ''A'' 2024 1 1 10]
   \<and> select_product [sale ''A'' 2024 1 1 10] ''B'' = []
   \<and> TrendAnalysisTool_run (loaded [sale ''A'' 2024 1 1 10]) no_details ''sales.csv'' ''B''
       = ''Error in trend analysis: Found array with 0 sample(s) (shape=(0, 1)) while a minimum of 1 is required by LinearRegression.''
   \<and> ProductClassificationTool_run (loaded [sale ''A'' 2024 1 1 10]) no_details ''sales.csv'' ''B''
       = ''Error in product classification: Found array with 0 sample(s) (shape=(0, 1)) while a minimum of 1 is required by LinearRegression.''
   \<and> ProductClassificationTool_run (loaded []) no_details ''header.csv'' ''B''
       = ''Error in product classification: Found array with 0 sample(s) (shape=(0, 1)) while a minimum of 1 is required by LinearRegression.''"
proof -
  have l: "loaded [sale ''A'' 2024 1 1 10] ''sales.csv'' = Inr [sale ''A'' 2024 1 1 10]"
    by (simp add: loaded_def)
  have s: "select_product [sale ''A'' 2024 1 1 10] ''B'' = []"
    by (simp add: select_product_def)
  have l0: "loaded [] ''header.csv'' = Inr []"
    by (simp add: loaded_def)
  have s0: "select_product [] ''B'' = []"
    by (simp add: select_product_def)
  from product_not_found [of "loaded [sale ''A'' 2024 1 1 10]" "''sales.csv''"
      "[sale ''A'' 2024 1 1 10]" "''B''" no_details no_details, OF l s]
    product_not_found [of "loaded []" "''header.csv''" "[]" "''B''" no_details no_details, OF l0 s0]
    l s
  show ?thesis
    by (simp add: empty_sample_error_def)
qed

text \<open>
  Claim C10.  For every loader, path and product, each of the three entry
  points returns a string: an exception of the \<^verbatim>\<open>try\<close> block, from loading
  or from the computation, is turned into the returned text \<open>Error in ...: \<close>
  followed by the exception's message, and a returned string starts with
  \<open>Error in\<close> exactly when an exception was raised, so that errors and reports share
  one channel and differ by their text only.
\<close>

theorem tools_return_strings:
  "(\<forall>e. seasonality_try read_csv data_path product_name = Inl e \<longrightarrow>
        SeasonalityAnalysisTool_run read_csv fmt_s data_path product_name
          = ''Error in seasonality analysis: '' @ str e)
   \<and> (\<forall>e. trend_try read_csv data_path product_name = Inl e \<longrightarrow>
        TrendAnalysisTool_run read_csv fmt_t data_path product_name
          = ''Error in trend analysis: '' @ str e)
   \<and> (\<forall>e. classification_try read_csv data_path product_name = Inl e \<longrightarrow>
        ProductClassificationTool_run read_csv fmt_c data_path product_name
          = ''Error in product classification: '' @ str e)
   \<and> (\<forall>e. read_csv data_path = Inl e \<longrightarrow>
        seasonality_try read_csv data_path product_name = Inl e
        \<and> trend_try read_csv data_path product_name = Inl e
        \<and> classification_try read_csv data_path product_name = Inl e)
   \<and> (prefix ''Error in '' (SeasonalityAnalysisTool_run read_csv fmt_s data_path product_name)
        \<longleftrightarrow> isl (seasonality_try read_csv data_path product_name))
   \<and> (prefix ''Error in '' (TrendAnalysisTool_run read_csv fmt_t data_path product_name)
        \<longleftrightarrow> isl (trend_try read_csv data_path product_name))
   \<and> (prefix ''Error in '' (ProductClassificationTool_run read_csv fmt_c data_path product_name)
        \<longleftrightarrow> isl (classification_try read_csv data_path product_name))"
proof (intro conjI)
  show "\<forall>e. seasonality_try read_csv data_path product_name = Inl e \<longrightarrow>
        SeasonalityAnalysisTool_run read_csv fmt_s data_path product_name
          = ''Error in seasonality analysis: '' @ str e"
    by (simp add: SeasonalityAnalysisTool_run_def)
  show "\<forall>e. trend_try read_csv data_path product_name = Inl e \<longrightarrow>
        TrendAnalysisTool_run read_csv fmt_t data_path product_name
          = ''Error in trend analysis: '' @ str e"
    by (simp add: TrendAnalysisTool_run_def)
  show "\<forall>e. classification_try read_csv data_path product_name = Inl e \<longrightarrow>
        ProductClassificationTool_run read_csv fmt_c data_path product_name
          = ''Error in product classification: '' @ str e"
    by (simp add: ProductClassificationTool_run_def)
  show "\<forall>e. read_csv data_path = Inl e \<longrightarrow>
        seasonality_try read_csv data_path product_name = Inl e
        \<and> trend_try read_csv data_path product_name = Inl e
        \<and> classification_try read_csv data_path product_name = Inl e"
    by (simp add: seasonality_try_def trend_try_def classification_try_def)
  show "prefix ''Error in '' (SeasonalityAnalysisTool_run read_csv fmt_s data_path product_name)
        \<longleftrightarrow> isl (seasonality_try read_csv data_path product_name)"
    by (cases "seasonality_try read_csv data_path product_name")
       (simp_all add: SeasonalityAnalysisTool_run_def)
  show "prefix ''Error in '' (TrendAnalysisTool_run read_csv fmt_t data_path product_name)
        \<longleftrightarrow> isl (trend_try read_csv data_path product_name)"
    by (cases "trend_try read_csv data_path product_name")
       (simp_all add: TrendAnalysisTool_run_def)
  show "prefix ''Error in '' (ProductClassificationTool_run read_csv fmt_c data_path product_name)
        \<longleftrightarrow> isl (classification_try read_csv data_path product_name)"
    by (cases "classification_try read_csv data_path product_name")
       (simp_all add: ProductClassificationTool_run_def)
qed

theorem tools_return_strings_witness:
  "SeasonalityAnalysisTool_run (failing (PyExc ''FileNotFoundError'' ''No such file'')) no_details
       ''missing.csv'' ''A''
     = ''Error in seasonality analysis: No such file''
   \<and> TrendAnalysisTool_run (failing (PyExc ''FileNotFoundError'' ''No such file'')) no_details
       ''missing.csv'' ''A''
     = ''Error in trend analysis: No such file''
   \<and> ProductClassificationTool_run (failing (PyExc ''FileNotFoundError'' ''No such file'')) no_details
       ''missing.csv'' ''A''
     = ''Error in product classification: No such file''
   \<and> prefix ''Error in '' (TrendAnalysisTool_run (loaded []) no_details ''sales.csv'' ''A'')
   \<and> \<not> prefix ''Error in ''
         (TrendAnalysisTool_run (loaded [sale ''A'' 2024 1 1 7]) no_details ''sales.csv'' ''A'')"
proof -
  let ?e = "PyExc ''FileNotFoundError'' ''No such file''"
  have f: "failing ?e ''missing.csv'' = Inl ?e" by (simp add: failing_def)
  note w = tools_return_strings [of "failing ?e" "''missing.csv''" "''A''" no_details no_details no_details]
  from w f have t: "seasonality_try (failing ?e) ''missing.csv'' ''A'' = Inl ?e"
    "trend_try (failing ?e) ''missing.csv'' ''A'' = Inl ?e"
    "classification_try (failing ?e) ''missing.csv'' ''A'' = Inl ?e"
    by blast+
  from w t have a: "SeasonalityAnalysisTool_run (failing ?e) no_details ''missing.csv'' ''A''
        = ''Error in seasonality analysis: '' @ str ?e"
    "TrendAnalysisTool_run (failing ?e) no_details ''missing.csv'' ''A''
        = ''Error in trend analysis: '' @ str ?e"
    "ProductClassificationTool_run (failing ?e) no_details ''missing.csv'' ''A''
        = ''Error in product classification: '' @ str ?e"
    by blast+
  have "isl (trend_try (loaded []) ''sales.csv'' ''A'')"
    by (simp add: trend_try_def loaded_def select_product_def trend_metrics_Nil)
  with tools_return_strings [of "loaded []" "''sales.csv''" "''A''" no_details no_details no_details]
  have b: "prefix ''Error in '' (TrendAnalysisTool_run (loaded []) no_details ''sales.csv'' ''A'')"
    by blast
  have "\<not> isl (trend_try (loaded [sale ''A'' 2024 1 1 7]) ''sales.csv'' ''A'')"
    using one_point [of "sale ''A'' 2024 1 1 7"]
    by (auto simp: trend_try_def loaded_def select_product_def)
  with tools_return_strings [of "loaded [sale ''A'' 2024 1 1 7]" "''sales.csv''" "''A''"
      no_details no_details no_details]
  have c: "\<not> prefix ''Error in ''
         (TrendAnalysisTool_run (loaded [sale ''A'' 2024 1 1 7]) no_details ''sales.csv'' ''A'')"
    by blast
  from a b c show ?thesis by simp
qed

end
